theory Spec2Isabelle
  imports Main
begin

section \<open>JavaScript values read by the client\<close>

text \<open>
  The client module \<^verbatim>\<open>src/services/geminiService.ts\<close> is glue code around a hosted
  model API. Its strings are modelled as \<open>string\<close> (lists of code units below 256), an
  optional property as an \<open>option\<close> (\<open>None\<close> is \<^verbatim>\<open>undefined\<close> or \<^verbatim>\<open>null\<close>). A
  name of the source that Isabelle reserves or that HOL already uses carries a prime or a
  suffix (\<open>text'\<close>, \<open>image'\<close>, \<open>image_result\<close>).
\<close>

definition js_truthy :: "string option \<Rightarrow> bool" where
  \<comment> \<open>\<^verbatim>\<open>if (v)\<close> for a value that is a string, \<^verbatim>\<open>null\<close> or \<^verbatim>\<open>undefined\<close>\<close>
  "js_truthy v = (case v of None \<Rightarrow> False | Some s \<Rightarrow> s \<noteq> [])"

definition js_interp :: "string option \<Rightarrow> string" where
  \<comment> \<open>\<^verbatim>\<open>${v}\<close> inside a template literal\<close>
  "js_interp v = (case v of None \<Rightarrow> ''undefined'' | Some s \<Rightarrow> s)"

record js_blob =
  data :: "string option"
  mimeType :: string

record js_part =
  inlineData :: "js_blob option"
  text' :: "string option"

text \<open>
  The content of a candidate and the part list of a content are optional: a reply that
  was blocked can hold a candidate without content.
\<close>

record js_content =
  parts :: "js_part list option"

record js_candidate =
  content :: "js_content option"

text \<open>
  A response of \<^verbatim>\<open>generateContent\<close>. Its \<^verbatim>\<open>text\<close> accessor belongs to the SDK, whose
  code is not part of the repository: it is a field of its own here, so that every
  statement about a response holds whatever the accessor yields.
\<close>

record js_response =
  candidates :: "js_candidate list option"
  response_text :: "string option"

text \<open>
  What a \<^verbatim>\<open>catch (error)\<close> can receive: an instance of \<^verbatim>\<open>Error\<close> or of one of its
  subclasses, with its message (every such object has one, the empty string when none
  was given), or any other value, with its \<^verbatim>\<open>message\<close> property when it has one. The
  texts of the errors that the engine itself throws are V8's.
\<close>

datatype error_class = Error | TypeError | SyntaxError | ApiError

datatype thrown = Thrown_Error error_class string | Thrown_Other "string option"

section \<open>Response normalization\<close>

record api_result =
  image_result :: "string option"
  text_result :: "string option"

definition png_data_url :: "string option \<Rightarrow> string" where
  \<comment> \<open>\<^verbatim>\<open>`data:image/png;base64,${d}`\<close>\<close>
  "png_data_url d = ''data:image/png;base64,'' @ js_interp d"

definition no_content_message :: string where
  "no_content_message = ''No content was generated. The request may have been blocked.''"

text \<open>
  One iteration of the loop over the parts, on the two local variables
  \<^verbatim>\<open>editedImageBase64\<close> and \<^verbatim>\<open>responseText\<close>: each of the two tests assigns when it
  succeeds, and the loop has no \<^verbatim>\<open>break\<close>.
\<close>

definition scan_part :: "js_part \<Rightarrow> string option \<times> string option \<Rightarrow> string option \<times> string option" where
  "scan_part p st =
     (let editedImageBase64 = (case inlineData p of
                                 Some b \<Rightarrow> Some (png_data_url (data b))
                               | None \<Rightarrow> fst st);
          responseText = (if js_truthy (text' p) then text' p else snd st)
      in (editedImageBase64, responseText))"

fun scan_parts :: "js_part list \<Rightarrow> string option \<times> string option \<Rightarrow> string option \<times> string option" where
  "scan_parts [] st = st"
| "scan_parts (p # ps) st = scan_parts ps (scan_part p st)"

text \<open>
  The end of \<^verbatim>\<open>processApiResponse\<close>, after the loop: the fallback text when both
  variables are empty, and the result object.
\<close>

definition normalized :: "string option \<times> string option \<Rightarrow> api_result" where
  "normalized st =
     (let editedImageBase64 = fst st;
          responseText = snd st
      in if \<not> js_truthy editedImageBase64 \<and> \<not> js_truthy responseText
         then \<lparr>image_result = editedImageBase64, text_result = Some no_content_message\<rparr>
         else \<lparr>image_result = editedImageBase64, text_result = responseText\<rparr>)"

text \<open>
  The loop runs over \<^verbatim>\<open>response.candidates[0].content.parts\<close>, read without a test:
  a first candidate without content, or a content without a part list, makes the read
  throw a \<^verbatim>\<open>TypeError\<close>.
\<close>

definition processApiResponse :: "js_response \<Rightarrow> thrown + api_result" where
  "processApiResponse response =
     (case candidates response of
        None \<Rightarrow> Inr (normalized (None, None))
      | Some [] \<Rightarrow> Inr (normalized (None, None))
      | Some (c # cs) \<Rightarrow>
          (case content c of
             None \<Rightarrow>
               Inl (Thrown_Error TypeError
                      (''Cannot read properties of undefined (reading '' @ [CHR 0x27] @ ''parts''
                         @ [CHR 0x27] @ '')''))
           | Some ct \<Rightarrow>
               (case parts ct of
                  None \<Rightarrow>
                    Inl (Thrown_Error TypeError
                           ''response.candidates[0].content.parts is not iterable'')
                | Some ps \<Rightarrow> Inr (normalized (scan_parts ps (None, None))))))"

section \<open>Strings, numbers and thrown values\<close>

definition js_whitespace :: "char \<Rightarrow> bool" where
  \<comment> \<open>the white space and line terminators of ECMAScript among the code units below 256\<close>
  "js_whitespace c = ((of_char c :: nat) \<in> {9, 10, 11, 12, 13, 32, 160})"

definition js_trim :: "string \<Rightarrow> string" where
  "js_trim s = rev (dropWhile js_whitespace (rev (dropWhile js_whitespace s)))"

fun js_split :: "char \<Rightarrow> string \<Rightarrow> string list" where
  "js_split sep [] = [[]]"
| "js_split sep (c # cs) =
     (if c = sep then [] # js_split sep cs
      else (case js_split sep cs of
              [] \<Rightarrow> [[c]]
            | x # xs \<Rightarrow> (c # x) # xs))"

definition js_index :: "'a list \<Rightarrow> nat \<Rightarrow> 'a option" where
  \<comment> \<open>\<^verbatim>\<open>xs[i]\<close>: \<^verbatim>\<open>undefined\<close> out of range\<close>
  "js_index xs i = (if i < length xs then Some (xs ! i) else None)"

text \<open>
  Numbers are doubles. The ones that arise here are the naturals that a double holds,
  \<open>Infinity\<close> and \<open>NaN\<close>. A natural below \<open>2 ^ 53\<close> is a double; a larger one is rounded to
  53 significant bits, ties to even, and to \<open>Infinity\<close> from \<open>2 ^ 1024\<close> on.
  \<^verbatim>\<open>Number(s)\<close> is modelled on strings of decimal digits (the empty string is 0); every
  other string is \<open>NaN\<close> here: signs, fractions, exponents, surrounding white space and
  other radices, which JavaScript also converts, are outside this model.
\<close>

datatype number = Num nat | Infinity | NaN

fun bit_length :: "nat \<Rightarrow> nat" where
  "bit_length n = (if n = 0 then 0 else Suc (bit_length (n div 2)))"

declare bit_length.simps [simp del]

definition round_double :: "nat \<Rightarrow> number" where
  "round_double n =
     (if n < 2 ^ 53 then Num n
      else
        (let e = bit_length n - 53;
             q = n div 2 ^ e;
             r = n mod 2 ^ e;
             q' = (if 2 ^ e < 2 * r \<or> (2 * r = 2 ^ e \<and> odd q) then q + 1 else q);
             v = q' * 2 ^ e
         in if 2 ^ 1024 \<le> v then Infinity else Num v))"

definition is_digit :: "char \<Rightarrow> bool" where
  "is_digit c = (48 \<le> (of_char c :: nat) \<and> (of_char c :: nat) \<le> 57)"

definition digit_value :: "char \<Rightarrow> nat" where
  "digit_value c = of_char c - 48"

definition decimal_value :: "string \<Rightarrow> nat" where
  "decimal_value s = foldl (\<lambda>n c. 10 * n + digit_value c) 0 s"

definition js_Number :: "string \<Rightarrow> number" where
  "js_Number s = (if list_all is_digit s then round_double (decimal_value s) else NaN)"

fun js_times :: "number option \<Rightarrow> number \<Rightarrow> number" where
  \<comment> \<open>\<^verbatim>\<open>a * b\<close>, where \<^verbatim>\<open>a\<close> may be \<^verbatim>\<open>undefined\<close>\<close>
  "js_times (Some (Num a)) (Num b) = round_double (a * b)"
| "js_times (Some (Num a)) Infinity = (if a = 0 then NaN else Infinity)"
| "js_times (Some Infinity) (Num b) = (if b = 0 then NaN else Infinity)"
| "js_times (Some Infinity) Infinity = Infinity"
| "js_times _ _ = NaN"

text \<open>
  The handler shared by the six operations (the logging to the console is left out):
  \<^verbatim>\<open>let message = d; if (error instanceof Error) message = error.message;
  throw new Error(message)\<close>.
\<close>

definition rethrow :: "string \<Rightarrow> thrown + 'a \<Rightarrow> thrown + 'a" where
  "rethrow d r =
     (case r of
        Inr v \<Rightarrow> Inr v
      | Inl error \<Rightarrow>
          Inl (Thrown_Error Error (case error of
                                     Thrown_Error cls m \<Rightarrow> m
                                   | Thrown_Other mo \<Rightarrow> d)))"

section \<open>The canvas seed generator\<close>

type_synonym pixel = "nat \<times> nat \<times> nat \<times> nat"

definition transparent_black :: pixel where
  "transparent_black = (0, 0, 0, 0)"

definition alpha :: "pixel \<Rightarrow> nat" where
  "alpha px = snd (snd (snd px))"

record canvas =
  canvas_width :: nat
  canvas_height :: nat
  bitmap :: "nat \<Rightarrow> nat \<Rightarrow> pixel"

text \<open>
  The browser: the PNG encoder behind \<^verbatim>\<open>toDataURL\<close> (the base64 text of the PNG of a
  canvas), the bitmap sizes it can serialize, whether \<^verbatim>\<open>getContext('2d')\<close> yields a
  context, and \<^verbatim>\<open>JSON.parse\<close> are parameters of the model.
\<close>

datatype json =
  JNull | JBool bool | JNum int | JStr string | JArr "json list" | JObj "(string \<times> json) list"

record browser =
  png_base64 :: "canvas \<Rightarrow> string"
  bitmap_supported :: "nat \<Rightarrow> nat \<Rightarrow> bool"
  getContext_2d :: bool
  JSON_parse :: "string \<Rightarrow> thrown + json"

definition createElement_canvas :: canvas where
  "createElement_canvas =
     \<lparr>canvas_width = 300, canvas_height = 150, bitmap = (\<lambda>x y. transparent_black)\<rparr>"

text \<open>
  The two dimensions of a canvas are attributes of the IDL type \<^verbatim>\<open>unsigned long\<close> that
  reflect a content attribute. An assigned number is converted to that type (\<open>NaN\<close> and
  \<open>Infinity\<close> become 0, any other number wraps modulo \<open>2 ^ 32\<close>); a value above
  \<open>2147483647\<close> is then replaced by the default of the attribute (300 for the width, 150
  for the height).
\<close>

definition to_unsigned_long :: "number \<Rightarrow> nat" where
  "to_unsigned_long n = (case n of Num k \<Rightarrow> k mod 2 ^ 32 | Infinity \<Rightarrow> 0 | NaN \<Rightarrow> 0)"

definition reflected :: "nat \<Rightarrow> nat \<Rightarrow> nat" where
  "reflected d v = (if v \<le> 2147483647 then v else d)"

definition set_width :: "canvas \<Rightarrow> number \<Rightarrow> canvas" where
  \<comment> \<open>assigning a dimension resets the bitmap\<close>
  "set_width c n =
     c\<lparr>canvas_width := reflected 300 (to_unsigned_long n), bitmap := (\<lambda>x y. transparent_black)\<rparr>"

definition set_height :: "canvas \<Rightarrow> number \<Rightarrow> canvas" where
  "set_height c n =
     c\<lparr>canvas_height := reflected 150 (to_unsigned_long n), bitmap := (\<lambda>x y. transparent_black)\<rparr>"

definition clearRect :: "canvas \<Rightarrow> nat \<Rightarrow> nat \<Rightarrow> nat \<Rightarrow> nat \<Rightarrow> canvas" where
  "clearRect c x0 y0 w h =
     c\<lparr>bitmap := (\<lambda>x y. if x0 \<le> x \<and> x < x0 + w \<and> y0 \<le> y \<and> y < y0 + h
                          then transparent_black else bitmap c x y)\<rparr>"

definition toDataURL :: "browser \<Rightarrow> canvas \<Rightarrow> string" where
  \<comment> \<open>\<^verbatim>\<open>canvas.toDataURL('image/png')\<close>; a canvas without pixels, or with a bitmap that the
      browser cannot serialize, gives \<^verbatim>\<open>data:,\<close>\<close>
  "toDataURL env c =
     (if canvas_width c = 0 \<or> canvas_height c = 0
         \<or> \<not> bitmap_supported env (canvas_width c) (canvas_height c)
      then ''data:,''
      else ''data:image/png;base64,'' @ png_base64 env c)"

text \<open>
  \<^verbatim>\<open>createBlankCanvas\<close> in two steps: the canvas it has drawn when it reaches its
  \<^verbatim>\<open>return\<close>, and the text it returns for that canvas.
\<close>

definition blank_canvas :: "browser \<Rightarrow> string \<Rightarrow> canvas" where
  "blank_canvas env aspectRatio =
     (let nums = map js_Number (js_split CHR '':'' aspectRatio);
          width = js_index nums 0;
          height = js_index nums 1;
          canvas0 = createElement_canvas;
          canvas1 = set_width canvas0 (js_times width (Num 100));
          canvas2 = set_height canvas1 (js_times height (Num 100))
      in if getContext_2d env
         then clearRect canvas2 0 0 (canvas_width canvas2) (canvas_height canvas2)
         else canvas2)"

definition createBlankCanvas :: "browser \<Rightarrow> string \<Rightarrow> string option" where
  "createBlankCanvas env aspectRatio =
     js_index (js_split CHR '','' (toDataURL env (blank_canvas env aspectRatio))) 1"

section \<open>The transport encoder\<close>

text \<open>
  A \<^verbatim>\<open>File\<close> or a \<^verbatim>\<open>Blob\<close>: whether it is an instance of \<^verbatim>\<open>File\<close>, its \<^verbatim>\<open>type\<close>
  property (every \<^verbatim>\<open>Blob\<close> has one; it is empty when the type is unknown), and what a
  \<^verbatim>\<open>FileReader\<close> holds in \<^verbatim>\<open>result\<close> after \<^verbatim>\<open>readAsDataURL\<close> (a string, or
  \<^verbatim>\<open>null\<close> when the read failed).
\<close>

record js_file =
  instanceof_File :: bool
  file_type :: string
  readAsDataURL :: "string option"

definition fileToGenerativePart :: "js_file \<Rightarrow> string option \<Rightarrow> js_part" where
  "fileToGenerativePart file mimeType' =
     (let base64EncodedData = (case readAsDataURL file of
                                 Some result \<Rightarrow> js_index (js_split CHR '','' result) 1
                               | None \<Rightarrow> Some []);
          finalMimeType = (if js_truthy mimeType' then the mimeType'
                           else if instanceof_File file then file_type file
                           else ''image/png'')
      in \<lparr>inlineData = Some \<lparr>data = base64EncodedData, mimeType = finalMimeType\<rparr>,
          text' = None\<rparr>)"

section \<open>Requests and the service\<close>

datatype modality = IMAGE | TEXT

datatype js_schema =
  Type_STRING
| Type_ARRAY js_schema "string option"
| Type_OBJECT "(string \<times> js_schema) list"

record gen_config =
  responseModalities :: "modality list option"
  responseMimeType :: "string option"
  responseSchema :: "js_schema option"

record generateContent_params =
  model :: string
  contents :: js_content
  config :: gen_config

record images_config =
  numberOfImages' :: int
  outputMimeType' :: string
  aspectRatio' :: string

record generateImages_params =
  images_model :: string
  images_prompt :: string
  images_config :: images_config

record js_image =
  imageBytes :: "string option"

record js_generatedImage =
  image' :: js_image

record js_images_response =
  generatedImages :: "js_generatedImage list option"

text \<open>
  The service behind \<^verbatim>\<open>ai.models\<close>: each call returns a response or throws. An
  operation returns the calls it issued, in order, beside its outcome.
\<close>

record ai =
  models_generateContent :: "generateContent_params \<Rightarrow> thrown + js_response"
  models_generateImages :: "generateImages_params \<Rightarrow> thrown + js_images_response"

datatype api_call =
  Call_generateContent generateContent_params
| Call_generateImages generateImages_params

definition modalities_config :: gen_config where
  \<comment> \<open>\<^verbatim>\<open>{ responseModalities: [Modality.IMAGE, Modality.TEXT] }\<close>\<close>
  "modalities_config =
     \<lparr>responseModalities = Some [IMAGE, TEXT], responseMimeType = None, responseSchema = None\<rparr>"

definition ideas_config :: "string option \<Rightarrow> gen_config" where
  \<comment> \<open>the JSON configuration of the two idea operations; they differ in the description\<close>
  "ideas_config description =
     \<lparr>responseModalities = None,
      responseMimeType = Some ''application/json'',
      responseSchema = Some (Type_OBJECT [(''ideas'', Type_ARRAY Type_STRING description)])\<rparr>"

definition text_part :: "string \<Rightarrow> js_part" where
  \<comment> \<open>\<^verbatim>\<open>{ text: s }\<close>\<close>
  "text_part s = \<lparr>inlineData = None, text' = Some s\<rparr>"

section \<open>The operations\<close>

definition editImage :: "ai \<Rightarrow> js_file \<Rightarrow> string \<Rightarrow> api_call list \<times> (thrown + api_result)" where
  "editImage ai imageFile prompt =
     (let imagePart = fileToGenerativePart imageFile None;
          textPart = text_part prompt;
          params = \<lparr>model = ''gemini-2.5-flash-image-preview'',
                    contents = \<lparr>parts = Some [imagePart, textPart]\<rparr>,
                    config = modalities_config\<rparr>
      in ([Call_generateContent params],
          rethrow ''An unexpected error occurred while communicating with the AI.''
            (case models_generateContent ai params of
               Inl e \<Rightarrow> Inl e
             | Inr response \<Rightarrow> processApiResponse response)))"

definition editImageWithMask ::
  "ai \<Rightarrow> js_file \<Rightarrow> js_file \<Rightarrow> string \<Rightarrow> api_call list \<times> (thrown + api_result)" where
  "editImageWithMask ai imageFile maskBlob prompt =
     (let imagePart = fileToGenerativePart imageFile None;
          maskPart = fileToGenerativePart maskBlob (Some ''image/png'');
          textPart = text_part prompt;
          params = \<lparr>model = ''gemini-2.5-flash-image-preview'',
                    contents = \<lparr>parts = Some [imagePart, maskPart, textPart]\<rparr>,
                    config = modalities_config\<rparr>
      in ([Call_generateContent params],
          rethrow ''An unexpected error occurred while communicating with the AI.''
            (case models_generateContent ai params of
               Inl e \<Rightarrow> Inl e
             | Inr response \<Rightarrow> processApiResponse response)))"

text \<open>
  Parsed JSON as the client inspects it: the truth value of a property, the property of
  a value (reading one of \<^verbatim>\<open>null\<close> throws; a value that is not an object has none), and
  \<^verbatim>\<open>Array.isArray\<close>. Numbers are only ever tested for being zero.
\<close>

fun json_truthy :: "json option \<Rightarrow> bool" where
  "json_truthy None = False"
| "json_truthy (Some JNull) = False"
| "json_truthy (Some (JBool b)) = b"
| "json_truthy (Some (JNum n)) = (n \<noteq> 0)"
| "json_truthy (Some (JStr s)) = (s \<noteq> [])"
| "json_truthy (Some (JArr xs)) = True"
| "json_truthy (Some (JObj kvs)) = True"

fun json_property :: "json \<Rightarrow> string \<Rightarrow> thrown + json option" where
  "json_property JNull key =
     Inl (Thrown_Error TypeError
            (''Cannot read properties of null (reading '' @ [CHR 0x27] @ key @ [CHR 0x27] @ '')''))"
| "json_property (JObj kvs) key = Inr (map_of kvs key)"
| "json_property _ key = Inr None"

fun isArray :: "json option \<Rightarrow> bool" where
  "isArray (Some (JArr xs)) = True"
| "isArray _ = False"

fun array_elements :: "json option \<Rightarrow> json list" where
  "array_elements (Some (JArr xs)) = xs"
| "array_elements _ = []"

definition creative_ideas_instruction :: string where
  "creative_ideas_instruction = ''You are a creative photo editing assistant. Analyze the following image and provide 3-4 distinct, creative ideas for how to edit it. Each idea should be a short, actionable sentence that can be used as a prompt for an AI image editor. Return the ideas as a JSON array of strings.''"

definition getCreativeIdeas ::
  "browser \<Rightarrow> ai \<Rightarrow> js_file \<Rightarrow> api_call list \<times> (thrown + json option)" where
  "getCreativeIdeas env ai imageFile =
     (let imagePart = fileToGenerativePart imageFile None;
          params = \<lparr>model = ''gemini-2.5-flash'',
                    contents = \<lparr>parts = Some [text_part creative_ideas_instruction, imagePart]\<rparr>,
                    config = ideas_config None\<rparr>
      in ([Call_generateContent params],
          rethrow ''An unexpected error occurred while generating ideas.''
            (case models_generateContent ai params of
               Inl e \<Rightarrow> Inl e
             | Inr response \<Rightarrow>
                 (let jsonString = response_text response
                  in if js_truthy jsonString
                     then (case JSON_parse env (the jsonString) of
                             Inl e \<Rightarrow> Inl e
                           | Inr result \<Rightarrow>
                               (case json_property result ''ideas'' of
                                  Inl e \<Rightarrow> Inl e
                                | Inr ideas \<Rightarrow> Inr (if json_truthy ideas then ideas else None)))
                     else Inr None))))"

definition generateImages ::
  "ai \<Rightarrow> string \<Rightarrow> int \<Rightarrow> string \<Rightarrow> api_call list \<times> (thrown + string list)" where
  "generateImages ai prompt numberOfImages aspectRatio =
     (if \<not> js_truthy (Some (js_trim prompt))
      then ([], rethrow ''An unexpected error occurred while generating images.''
                  (Inl (Thrown_Error Error ''Prompt cannot be empty.'')))
      else
        (let params = \<lparr>images_model = ''imagen-4.0-generate-001'',
                      images_prompt = prompt,
                      images_config = \<lparr>numberOfImages' = numberOfImages,
                                        outputMimeType' = ''image/png'',
                                        aspectRatio' = aspectRatio\<rparr>\<rparr>
         in ([Call_generateImages params],
             rethrow ''An unexpected error occurred while generating images.''
               (case models_generateImages ai params of
                  Inl e \<Rightarrow> Inl e
                | Inr response \<Rightarrow>
                    (case generatedImages response of
                       None \<Rightarrow>
                         Inl (Thrown_Error Error ''The AI did not generate any images. This might be due to the safety policy.'')
                     | Some imgs \<Rightarrow>
                         if length imgs = 0
                         then Inl (Thrown_Error Error ''The AI did not generate any images. This might be due to the safety policy.'')
                         else Inr (map (\<lambda>img. png_data_url (imageBytes (image' img))) imgs))))))"

definition reference_prompt :: "string \<Rightarrow> string" where
  \<comment> \<open>\<^verbatim>\<open>fullPrompt\<close>\<close>
  "reference_prompt prompt = ''Please fill the provided blank transparent canvas with a new image. Use the other reference images as strong inspiration for the style, mood, and subject matter. Follow this specific instruction for the content: \"'' @ prompt @ ''\". The final output must be a single, complete image that perfectly fits the dimensions of the initial blank canvas.''"

definition generateImageWithReference ::
  "browser \<Rightarrow> ai \<Rightarrow> js_file list \<Rightarrow> string \<Rightarrow> string \<Rightarrow> api_call list \<times> (thrown + string list)" where
  "generateImageWithReference env ai files prompt aspectRatio =
     (if length files = 0
      then ([], rethrow ''An unexpected error occurred while generating the image.''
                  (Inl (Thrown_Error Error ''Please provide at least one reference image.'')))
      else if \<not> js_truthy (Some (js_trim prompt))
      then ([], rethrow ''An unexpected error occurred while generating the image.''
                  (Inl (Thrown_Error Error ''Prompt cannot be empty.'')))
      else
        (let blankCanvasBase64 = createBlankCanvas env aspectRatio;
             canvasPart = \<lparr>inlineData = Some \<lparr>data = blankCanvasBase64, mimeType = ''image/png''\<rparr>,
                           text' = None\<rparr>;
             imageParts = map (\<lambda>file. fileToGenerativePart file None) files;
             fullPrompt = reference_prompt prompt;
             textPart = text_part fullPrompt;
             params = \<lparr>model = ''gemini-2.5-flash-image-preview'',
                       contents = \<lparr>parts = Some ([canvasPart] @ imageParts @ [textPart])\<rparr>,
                       config = modalities_config\<rparr>
         in ([Call_generateContent params],
             rethrow ''An unexpected error occurred while generating the image.''
               (case models_generateContent ai params of
                  Inl e \<Rightarrow> Inl e
                | Inr response \<Rightarrow>
                    (case processApiResponse response of
                       Inl e \<Rightarrow> Inl e
                     | Inr result \<Rightarrow>
                         if js_truthy (image_result result)
                         then Inr [the (image_result result)]
                         else Inl (Thrown_Error Error
                                     (if js_truthy (text_result result) then the (text_result result)
                                      else ''The AI could not generate an image from your request.'')))))))"

record form_data =
  productName :: string
  productPosition :: string
  additionalInfo :: string

definition image_only_prompt :: string where
  \<comment> \<open>the template of the mode with reference images and no form data\<close>
  "image_only_prompt =
     ''\<newline>        You are an expert prompt writer for an AI image generator.'' @
     ''\<newline>        Analyze the following image(s) closely. Based *only* on the visual information (style, subject, composition, lighting, colors), generate 4 distinct, creative, and detailed prompt ideas in English.'' @
     ''\<newline>        The prompts should describe how to create a similar or inspired image.'' @
     ''\<newline>        Return the ideas as a JSON object with a single key \"ideas\" which is an array of 4 strings.'' @
     ''\<newline>      ''"

definition form_prompt :: "form_data \<Rightarrow> string" where
  \<comment> \<open>the template of the mode with form data\<close>
  "form_prompt formData =
     ''\<newline>        You are an expert prompt writer for an AI image generator, specializing in stunning product photography for small businesses (UMKM).'' @
     ''\<newline>        Based on the following information, generate 4 distinct, creative, and detailed prompt ideas.'' @
     ''\<newline>        The prompts should be in English.'' @
     ''\<newline>'' @
     ''\<newline>        Product Name: \"'' @ productName formData @ ''\"'' @
     ''\<newline>        Product Position/Action: \"'' @ productPosition formData @ ''\"'' @
     ''\<newline>        Additional Details (style, background, mood, colors): \"'' @ additionalInfo formData @ ''\"'' @
     ''\<newline>'' @
     ''\<newline>        Return the ideas as a JSON object with a single key \"ideas\" which is an array of 4 strings.'' @
     ''\<newline>      ''"

definition hasTextData :: "form_data \<Rightarrow> bool" where
  \<comment> \<open>the truth value of \<^verbatim>\<open>productName || productPosition || additionalInfo\<close>\<close>
  "hasTextData formData =
     (js_truthy (Some (productName formData)) \<or> js_truthy (Some (productPosition formData))
      \<or> js_truthy (Some (additionalInfo formData)))"

definition generatePromptIdeas ::
  "browser \<Rightarrow> ai \<Rightarrow> form_data \<Rightarrow> js_file list \<Rightarrow> api_call list \<times> (thrown + json list)" where
  "generatePromptIdeas env ai formData referenceImages =
     (if \<not> hasTextData formData \<and> length referenceImages = 0
      then ([], rethrow ''An unexpected error occurred while generating ideas.''
                  (Inl (Thrown_Error Error ''Please provide some information or a reference image to generate ideas.'')))
      else
        (let textPrompt = (if length referenceImages > 0 \<and> \<not> hasTextData formData
                           then image_only_prompt
                           else form_prompt formData);
             textPart = text_part textPrompt;
             imageParts = map (\<lambda>file. fileToGenerativePart file None) referenceImages;
             params = \<lparr>model = ''gemini-2.5-flash'',
                       contents = \<lparr>parts = Some ([textPart] @ imageParts)\<rparr>,
                       config = ideas_config (Some ''An array of 4 distinct and creative prompt ideas for product photography.'')\<rparr>
         in ([Call_generateContent params],
             rethrow ''An unexpected error occurred while generating ideas.''
               (case models_generateContent ai params of
                  Inl e \<Rightarrow> Inl e
                | Inr response \<Rightarrow>
                    (let jsonString = response_text response;
                         invalid = Inl (Thrown_Error Error ''The AI did not return valid prompt ideas. Please try again.'')
                     in if js_truthy jsonString
                        then (case JSON_parse env (the jsonString) of
                                Inl e \<Rightarrow> Inl e
                              | Inr result \<Rightarrow>
                                  (case json_property result ''ideas'' of
                                     Inl e \<Rightarrow> Inl e
                                   | Inr ideas \<Rightarrow>
                                       if json_truthy ideas \<and> isArray ideas
                                          \<and> length (array_elements ideas) > 0
                                       then Inr (array_elements ideas)
                                       else invalid))
                        else invalid)))))"

section \<open>Readings of the specification and example inputs\<close>

text \<open>
  The specification's wording of the normalization, "the first part carrying binary
  payload" and "the first part carrying text", written out to be compared with the code.
\<close>

definition spec_first_image :: "js_part list \<Rightarrow> string option" where
  "spec_first_image ps =
     (case filter (\<lambda>p. inlineData p \<noteq> None) ps of
        [] \<Rightarrow> None
      | p # _ \<Rightarrow> Some (png_data_url (data (the (inlineData p)))))"

definition spec_first_text :: "js_part list \<Rightarrow> string option" where
  "spec_first_text ps =
     (case filter (\<lambda>p. js_truthy (text' p)) ps of
        [] \<Rightarrow> None
      | p # _ \<Rightarrow> text' p)"

definition response_of :: "js_part list \<Rightarrow> js_response" where
  \<comment> \<open>a response with one candidate that holds the given parts\<close>
  "response_of ps =
     \<lparr>candidates = Some [\<lparr>content = Some \<lparr>parts = Some ps\<rparr>\<rparr>], response_text = None\<rparr>"

definition two_images :: "js_part list" where
  "two_images =
     [\<lparr>inlineData = Some \<lparr>data = Some ''AAAA'', mimeType = ''image/jpeg''\<rparr>, text' = Some ''first''\<rparr>,
      \<lparr>inlineData = Some \<lparr>data = Some ''BBBB'', mimeType = ''image/jpeg''\<rparr>, text' = Some ''second''\<rparr>]"

text \<open>
  The specification's wording of the encoder's contract: the override when one is given,
  else the MIME type of the source object when it carries one, else PNG.
\<close>

definition spec_mime_label :: "js_file \<Rightarrow> string option \<Rightarrow> string" where
  "spec_mime_label file override =
     (case override of
        Some m \<Rightarrow> m
      | None \<Rightarrow> if file_type file \<noteq> [] then file_type file else ''image/png'')"

definition part_mime :: "js_part \<Rightarrow> string option" where
  \<comment> \<open>the MIME type a part is labelled with\<close>
  "part_mime p = map_option mimeType (inlineData p)"

definition jpeg_blob :: js_file where
  "jpeg_blob = \<lparr>instanceof_File = False, file_type = ''image/jpeg'',
                 readAsDataURL = Some ''data:image/jpeg;base64,QUJD''\<rparr>"

definition untyped_file :: js_file where
  "untyped_file = \<lparr>instanceof_File = True, file_type = [],
                    readAsDataURL = Some ''data:application/octet-stream;base64,QUJD''\<rparr>"

definition webp_file :: js_file where
  "webp_file = \<lparr>instanceof_File = True, file_type = ''image/webp'',
                 readAsDataURL = Some ''data:image/webp;base64,REVG''\<rparr>"

definition failing_ai :: "thrown \<Rightarrow> ai" where
  \<comment> \<open>a service that throws on every call\<close>
  "failing_ai e = \<lparr>models_generateContent = (\<lambda>p. Inl e), models_generateImages = (\<lambda>p. Inl e)\<rparr>"

definition images_of :: "string list \<Rightarrow> js_images_response" where
  "images_of bs = \<lparr>generatedImages = Some (map (\<lambda>b. \<lparr>image' = \<lparr>imageBytes = Some b\<rparr>\<rparr>) bs)\<rparr>"

definition image_ai :: "js_images_response \<Rightarrow> ai" where
  \<comment> \<open>a service that answers every image generation call with the given response\<close>
  "image_ai r =
     \<lparr>models_generateContent = (\<lambda>p. Inl (Thrown_Other None)), models_generateImages = (\<lambda>p. Inr r)\<rparr>"

definition content_ai :: "js_response \<Rightarrow> ai" where
  \<comment> \<open>a service that answers every content generation call with the given response\<close>
  "content_ai r =
     \<lparr>models_generateContent = (\<lambda>p. Inr r), models_generateImages = (\<lambda>p. Inl (Thrown_Other None))\<rparr>"

definition test_browser :: "(string \<Rightarrow> thrown + json) \<Rightarrow> browser" where
  \<comment> \<open>a browser that serializes bitmaps of up to 65535 pixels a side\<close>
  "test_browser parse =
     \<lparr>png_base64 = (\<lambda>c. ''iVBORw0KGgo=''),
      bitmap_supported = (\<lambda>w h. w \<le> 65535 \<and> h \<le> 65535),
      getContext_2d = True, JSON_parse = parse\<rparr>"

text \<open>
  What the service did with a call an operation issued: it threw, or it answered.
\<close>

definition service_outcome :: "ai \<Rightarrow> api_call \<Rightarrow> thrown + (js_response + js_images_response)" where
  "service_outcome ai call =
     (case call of
        Call_generateContent params \<Rightarrow> map_sum id Inl (models_generateContent ai params)
      | Call_generateImages params \<Rightarrow> map_sum id Inr (models_generateImages ai params))"

text \<open>
  The specification's wording of the message of a re-raised failure: the message of the
  underlying failure when it has one, else the default of the operation.
\<close>

definition spec_surfaced_message :: "string \<Rightarrow> thrown \<Rightarrow> string" where
  "spec_surfaced_message d e =
     (let message = (case e of Thrown_Error cls m \<Rightarrow> Some m | Thrown_Other mo \<Rightarrow> mo)
      in if js_truthy message then the message else d)"

definition quota_error :: thrown where
  "quota_error = Thrown_Error ApiError ''quota exceeded''"

definition empty_form :: form_data where
  "empty_form = \<lparr>productName = [], productPosition = [], additionalInfo = []\<rparr>"

text \<open>
  The reading of the response of \<^verbatim>\<open>generatePromptIdeas\<close> (the end of its \<^verbatim>\<open>try\<close> block),
  named for the proofs.
\<close>

definition ideas_of_response :: "browser \<Rightarrow> js_response \<Rightarrow> thrown + json list" where
  "ideas_of_response env response =
     (let jsonString = response_text response;
          invalid = Inl (Thrown_Error Error ''The AI did not return valid prompt ideas. Please try again.'')
      in if js_truthy jsonString
         then (case JSON_parse env (the jsonString) of
                 Inl e \<Rightarrow> Inl e
               | Inr result \<Rightarrow>
                   (case json_property result ''ideas'' of
                      Inl e \<Rightarrow> Inl e
                    | Inr ideas \<Rightarrow>
                        if json_truthy ideas \<and> isArray ideas \<and> length (array_elements ideas) > 0
                        then Inr (array_elements ideas)
                        else invalid))
         else invalid)"

definition text_response :: "string \<Rightarrow> js_response" where
  \<comment> \<open>a response whose text is the given string\<close>
  "text_response s = \<lparr>candidates = None, response_text = Some s\<rparr>"

definition test_parse :: "string \<Rightarrow> thrown + json" where
  \<comment> \<open>\<^verbatim>\<open>JSON.parse\<close> on four inputs\<close>
  "test_parse s =
     (if s = ''{\"ideas\":[\"a\"]}'' then Inr (JObj [(''ideas'', JArr [JStr ''a''])])
      else if s = ''{\"ideas\":[1,null]}'' then Inr (JObj [(''ideas'', JArr [JNum 1, JNull])])
      else if s = ''{\"ideas\":[]}'' then Inr (JObj [(''ideas'', JArr [])])
      else if s = ''null'' then Inr JNull
      else Inl (Thrown_Error SyntaxError ''Unexpected token''))"

section \<open>Properties of the normalization\<close>

lemma scan_parts_append:
  "scan_parts (xs @ ys) st = scan_parts ys (scan_parts xs st)"
  by (induction xs arbitrary: st) simp_all

lemma scan_parts_no_inline:
  "list_all (\<lambda>q. inlineData q = None) ps \<Longrightarrow> fst (scan_parts ps st) = fst st"
  by (induction ps arbitrary: st) (simp_all add: scan_part_def)

lemma scan_parts_no_text:
  "list_all (\<lambda>q. \<not> js_truthy (text' q)) ps \<Longrightarrow> snd (scan_parts ps st) = snd st"
  by (induction ps arbitrary: st) (simp_all add: scan_part_def)


lemma normalized_neither:
  "normalized (None, None) =
     \<lparr>image_result = None,
      text_result = Some ''No content was generated. The request may have been blocked.''\<rparr>"
  by (simp add: normalized_def js_truthy_def no_content_message_def)

lemma processApiResponse_parts:
  "candidates r = Some (c # cs) \<Longrightarrow> content c = Some ct \<Longrightarrow> parts ct = Some ps \<Longrightarrow>
     processApiResponse r = Inr (normalized (scan_parts ps (None, None)))"
  by (simp add: processApiResponse_def)

text \<open>
  A first candidate without content, or whose content has no part list, makes the
  normalization throw a \<^verbatim>\<open>TypeError\<close>; the operations re-raise it as a plain error.
\<close>

lemma processApiResponse_missing_content:
  "candidates r = Some (c # cs) \<Longrightarrow> content c = None \<or> (\<exists>ct. content c = Some ct \<and> parts ct = None) \<Longrightarrow>
     \<exists>m. processApiResponse r = Inl (Thrown_Error TypeError m)"
  by (auto simp add: processApiResponse_def)

text \<open>
  C1, as the specification states it: the image result comes from the first part with
  binary payload and the text result from the first part with text. The loop assigns at
  every matching part, so on a response with two such parts the code returns the second
  image and the second text, not the first.
\<close>

theorem processApiResponse_first_part_counterexample:
  "processApiResponse (response_of two_images) =
     Inr \<lparr>image_result = Some ''data:image/png;base64,BBBB'', text_result = Some ''second''\<rparr>
   \<and> spec_first_image two_images = Some ''data:image/png;base64,AAAA''
   \<and> spec_first_text two_images = Some ''first''
   \<and> processApiResponse (response_of two_images) \<noteq>
       Inr \<lparr>image_result = spec_first_image two_images, text_result = spec_first_text two_images\<rparr>"
  by (simp add: two_images_def response_of_def processApiResponse_def normalized_def Let_def
      scan_part_def png_data_url_def js_interp_def js_truthy_def spec_first_image_def
      spec_first_text_def)

text \<open>
  C1, amended: among the parts of the first candidate, the last part with binary payload
  gives the image result (a PNG data URL of its data) and the last part with a non-empty
  text gives the text result; every earlier such part is overwritten.
\<close>

theorem processApiResponse_last_part_wins:
  assumes "candidates r = Some (c # cs)" and "content c = Some ct"
    and "parts ct = Some (pre @ p # post)"
  shows "\<exists>res. processApiResponse r = Inr res \<and>
           (inlineData p = Some b \<and> list_all (\<lambda>q. inlineData q = None) post \<longrightarrow>
              image_result res = Some (png_data_url (data b))) \<and>
           (js_truthy (text' p) \<and> list_all (\<lambda>q. \<not> js_truthy (text' q)) post \<longrightarrow>
              text_result res = text' p)"
proof -
  let ?st = "scan_parts (pre @ p # post) (None, None)"
  have res: "processApiResponse r = Inr (normalized ?st)"
    using assms by (rule processApiResponse_parts)
  have img: "inlineData p = Some b \<and> list_all (\<lambda>q. inlineData q = None) post \<longrightarrow>
               image_result (normalized ?st) = Some (png_data_url (data b))"
  proof
    assume h: "inlineData p = Some b \<and> list_all (\<lambda>q. inlineData q = None) post"
    then have "fst ?st = Some (png_data_url (data b))"
      by (simp add: scan_parts_append scan_parts_no_inline scan_part_def)
    then show "image_result (normalized ?st) = Some (png_data_url (data b))"
      by (simp add: normalized_def Let_def)
  qed
  have tex: "js_truthy (text' p) \<and> list_all (\<lambda>q. \<not> js_truthy (text' q)) post \<longrightarrow>
               text_result (normalized ?st) = text' p"
  proof
    assume h: "js_truthy (text' p) \<and> list_all (\<lambda>q. \<not> js_truthy (text' q)) post"
    then have "snd ?st = text' p"
      by (simp add: scan_parts_append scan_parts_no_text scan_part_def)
    then show "text_result (normalized ?st) = text' p"
      using h by (simp add: normalized_def Let_def)
  qed
  show ?thesis using res img tex by blast
qed

theorem processApiResponse_last_part_wins_witness:
  "\<exists>res. processApiResponse (response_of two_images) = Inr res
      \<and> image_result res = Some ''data:image/png;base64,BBBB''
      \<and> text_result res = Some ''second''"
  using processApiResponse_last_part_wins [of "response_of two_images"
     "\<lparr>content = Some \<lparr>parts = Some two_images\<rparr>\<rparr>" "[]" "\<lparr>parts = Some two_images\<rparr>"
     "[two_images ! 0]" "two_images ! 1" "[]" "\<lparr>data = Some ''BBBB'', mimeType = ''image/jpeg''\<rparr>"]
  by (simp add: two_images_def response_of_def js_truthy_def png_data_url_def js_interp_def)




section \<open>Properties of image generation\<close>

lemma js_trim_blank: "list_all js_whitespace s \<Longrightarrow> js_trim s = []"
proof -
  assume "list_all js_whitespace s"
  then have h: "dropWhile js_whitespace s = []"
    by (simp add: list_all_iff)
  show ?thesis unfolding js_trim_def h by simp
qed

text \<open>
  C5: on a prompt that consists of white space only (the empty prompt included),
  \<^verbatim>\<open>generateImages\<close> fails with an error and has issued no call to the service.
\<close>

theorem generateImages_blank_prompt:
  "list_all js_whitespace prompt \<Longrightarrow>
     generateImages ai prompt numberOfImages aspectRatio =
       ([], Inl (Thrown_Error Error ''Prompt cannot be empty.''))"
  by (simp add: generateImages_def js_trim_blank js_truthy_def rethrow_def)

theorem generateImages_blank_prompt_witness:
  "generateImages (failing_ai (Thrown_Other None)) [CHR 0x20, CHR 0x09, CHR 0x0A] 2 ''1:1'' =
       ([], Inl (Thrown_Error Error ''Prompt cannot be empty.''))
   \<and> generateImages (failing_ai (Thrown_Other None)) [] 2 ''1:1'' =
       ([], Inl (Thrown_Error Error ''Prompt cannot be empty.''))"
  using generateImages_blank_prompt [of "[CHR 0x20, CHR 0x09, CHR 0x0A]" "failing_ai (Thrown_Other None)" 2 "''1:1''"]
    generateImages_blank_prompt [of "[]" "failing_ai (Thrown_Other None)" 2 "''1:1''"]
  by (simp add: js_whitespace_def)

text \<open>
  C4, as the specification states it, for every non-empty prompt: a prompt of one space
  is not empty, yet \<^verbatim>\<open>generateImages\<close> fails on it without calling the service, also when
  the service would answer with an image.
\<close>

theorem generateImages_nonempty_prompt_counterexample:
  "'' '' \<noteq> [] \<and>
   generateImages (image_ai (images_of [''QUJD''])) '' '' 1 ''1:1'' =
     ([], Inl (Thrown_Error Error ''Prompt cannot be empty.''))"
  by (simp add: generateImages_def js_trim_def js_whitespace_def js_truthy_def rethrow_def)

text \<open>
  C4, amended: on a prompt that is not blank (not made of white space only),
  \<^verbatim>\<open>generateImages\<close> issues one image generation call for that prompt, count and aspect
  ratio. When the service answers it with a non-empty image list, the operation returns,
  in the service's order, one string per image: the prefix \<^verbatim>\<open>data:image/png;base64,\<close>
  followed by the image's bytes. When the list is empty or absent, the operation fails
  with an error.
\<close>

theorem generateImages_result:
  "(js_trim prompt \<noteq> [] \<longrightarrow>
      fst (generateImages ai prompt numberOfImages aspectRatio) =
        [Call_generateImages
           \<lparr>images_model = ''imagen-4.0-generate-001'', images_prompt = prompt,
            images_config = \<lparr>numberOfImages' = numberOfImages, outputMimeType' = ''image/png'',
                              aspectRatio' = aspectRatio\<rparr>\<rparr>]) \<and>
   (fst (generateImages ai prompt numberOfImages aspectRatio) = [Call_generateImages params]
      \<and> models_generateImages ai params = Inr response \<longrightarrow>
        (generatedImages response = Some imgs \<and> imgs \<noteq> [] \<longrightarrow>
           snd (generateImages ai prompt numberOfImages aspectRatio) =
             Inr (map (\<lambda>img. ''data:image/png;base64,'' @ js_interp (imageBytes (image' img))) imgs)) \<and>
        (generatedImages response = None \<or> generatedImages response = Some [] \<longrightarrow>
           snd (generateImages ai prompt numberOfImages aspectRatio) =
             Inl (Thrown_Error Error
                    ''The AI did not generate any images. This might be due to the safety policy.'')))"
  by (auto simp add: generateImages_def js_truthy_def Let_def rethrow_def png_data_url_def
      split: if_splits)

theorem generateImages_result_witness:
  "snd (generateImages (image_ai (images_of [''QUJD'', ''REVG''])) ''a red apple'' 2 ''1:1'') =
     Inr [''data:image/png;base64,QUJD'', ''data:image/png;base64,REVG''] \<and>
   snd (generateImages (image_ai (images_of [])) ''a red apple'' 2 ''1:1'') =
     Inl (Thrown_Error Error
            ''The AI did not generate any images. This might be due to the safety policy.'') \<and>
   snd (generateImages (image_ai \<lparr>generatedImages = None\<rparr>) ''a red apple'' 2 ''1:1'') =
     Inl (Thrown_Error Error
            ''The AI did not generate any images. This might be due to the safety policy.'')"
  using generateImages_result [of "''a red apple''" "image_ai (images_of [''QUJD'', ''REVG''])" 2 "''1:1''"
      "\<lparr>images_model = ''imagen-4.0-generate-001'', images_prompt = ''a red apple'',
            images_config = \<lparr>numberOfImages' = 2, outputMimeType' = ''image/png'',
                              aspectRatio' = ''1:1''\<rparr>\<rparr>" "images_of [''QUJD'', ''REVG'']"
      "[\<lparr>image' = \<lparr>imageBytes = Some ''QUJD''\<rparr>\<rparr>, \<lparr>image' = \<lparr>imageBytes = Some ''REVG''\<rparr>\<rparr>]"]
    generateImages_result [of "''a red apple''" "image_ai (images_of [])" 2 "''1:1''"
      "\<lparr>images_model = ''imagen-4.0-generate-001'', images_prompt = ''a red apple'',
            images_config = \<lparr>numberOfImages' = 2, outputMimeType' = ''image/png'',
                              aspectRatio' = ''1:1''\<rparr>\<rparr>" "images_of []"]
    generateImages_result [of "''a red apple''" "image_ai \<lparr>generatedImages = None\<rparr>" 2 "''1:1''"
      "\<lparr>images_model = ''imagen-4.0-generate-001'', images_prompt = ''a red apple'',
            images_config = \<lparr>numberOfImages' = 2, outputMimeType' = ''image/png'',
                              aspectRatio' = ''1:1''\<rparr>\<rparr>" "\<lparr>generatedImages = None\<rparr>"]
  by (simp add: image_ai_def images_of_def js_trim_def js_whitespace_def js_interp_def)

section \<open>Properties of the transport encoder\<close>

text \<open>
  C9, as the specification states it: without an override the part is labelled with the
  MIME type of the source object when that object carries one, and with PNG otherwise.
  A blob that is not a \<^verbatim>\<open>File\<close> and declares \<^verbatim>\<open>image/jpeg\<close> is labelled \<^verbatim>\<open>image/png\<close>, and
  a \<^verbatim>\<open>File\<close> whose type is empty is labelled with the empty string.
\<close>

theorem fileToGenerativePart_label_counterexample:
  "part_mime (fileToGenerativePart jpeg_blob None) = Some ''image/png''
   \<and> spec_mime_label jpeg_blob None = ''image/jpeg''
   \<and> part_mime (fileToGenerativePart untyped_file None) = Some []
   \<and> spec_mime_label untyped_file None = ''image/png''"
  by (simp add: part_mime_def fileToGenerativePart_def jpeg_blob_def untyped_file_def
      spec_mime_label_def js_truthy_def Let_def)

text \<open>
  C9, amended: a non-empty override is used. Without one (or with an empty one) the label
  is the \<^verbatim>\<open>type\<close> property of the input when the input is a \<^verbatim>\<open>File\<close>, and
  \<^verbatim>\<open>image/png\<close> when it is any other blob, whatever type that blob declares.
\<close>

theorem fileToGenerativePart_label:
  "(override = Some m \<and> m \<noteq> [] \<longrightarrow> part_mime (fileToGenerativePart file override) = Some m) \<and>
   ((override = None \<or> override = Some []) \<and> instanceof_File file \<longrightarrow>
      part_mime (fileToGenerativePart file override) = Some (file_type file)) \<and>
   ((override = None \<or> override = Some []) \<and> \<not> instanceof_File file \<longrightarrow>
      part_mime (fileToGenerativePart file override) = Some ''image/png'')"
  by (auto simp add: part_mime_def fileToGenerativePart_def js_truthy_def Let_def)

theorem fileToGenerativePart_label_witness:
  "part_mime (fileToGenerativePart jpeg_blob (Some ''image/gif'')) = Some ''image/gif'' \<and>
   part_mime (fileToGenerativePart webp_file None) = Some ''image/webp'' \<and>
   part_mime (fileToGenerativePart untyped_file None) = Some [] \<and>
   part_mime (fileToGenerativePart jpeg_blob None) = Some ''image/png''"
  using fileToGenerativePart_label [of "Some ''image/gif''" "''image/gif''" jpeg_blob]
    fileToGenerativePart_label [of None _ webp_file]
    fileToGenerativePart_label [of None _ untyped_file]
    fileToGenerativePart_label [of None _ jpeg_blob]
  by (simp add: jpeg_blob_def webp_file_def untyped_file_def)

section \<open>Properties of the canvas seed generator\<close>

lemma js_split_no_sep: "sep \<notin> set s \<Longrightarrow> js_split sep s = [s]"
  by (induction s) auto

lemma js_split_at_sep: "sep \<notin> set a \<Longrightarrow> js_split sep (a @ sep # b) = a # js_split sep b"
  by (induction a) auto

lemma digit_not_colon: "list_all is_digit s \<Longrightarrow> CHR '':'' \<notin> set s"
  by (auto simp add: list_all_iff is_digit_def)

lemma split_ratio:
  assumes "list_all is_digit ws" "list_all is_digit hs"
  shows "js_split CHR '':'' (ws @ CHR '':'' # hs) = [ws, hs]"
  using assms by (simp add: js_split_at_sep js_split_no_sep digit_not_colon)

lemma split_data_url:
  assumes "CHR '','' \<notin> set b"
  shows "js_index (js_split CHR '','' (''data:image/png;base64,'' @ b)) 1 = Some b"
proof -
  have "js_split CHR '','' (''data:image/png;base64'' @ CHR '','' # b)
          = ''data:image/png;base64'' # js_split CHR '','' b"
    by (rule js_split_at_sep) simp
  also have "js_split CHR '','' b = [b]"
    by (rule js_split_no_sep [OF assms])
  finally show ?thesis by (simp add: js_index_def)
qed

lemma clearRect_blank:
  "clearRect \<lparr>canvas_width = w, canvas_height = h, bitmap = (\<lambda>x y. transparent_black)\<rparr> 0 0 w' h'
     = \<lparr>canvas_width = w, canvas_height = h, bitmap = (\<lambda>x y. transparent_black)\<rparr>"
  by (simp add: clearRect_def cong: if_cong)


lemma round_double_exact: "n < 2 ^ 53 \<Longrightarrow> round_double n = Num n"
  by (simp add: round_double_def)

lemma dimension_exact:
  assumes "list_all is_digit s" and "100 * decimal_value s \<le> 2147483647"
  shows "reflected d (to_unsigned_long (js_times (Some (js_Number s)) (Num 100)))
           = 100 * decimal_value s"
proof -
  have small: "decimal_value s < 2 ^ 53" "decimal_value s * 100 < 2 ^ 53"
    "decimal_value s * 100 < 2 ^ 32"
    using assms(2) by simp_all
  have "js_times (Some (js_Number s)) (Num 100) = Num (decimal_value s * 100)"
    using assms(1) small by (simp add: js_Number_def round_double_exact)
  then show ?thesis
    using assms(2) small by (simp add: to_unsigned_long_def reflected_def)
qed

lemma blank_canvas_of_digits:
  assumes "list_all is_digit ws" "list_all is_digit hs"
    and "100 * decimal_value ws \<le> 2147483647" "100 * decimal_value hs \<le> 2147483647"
  shows "blank_canvas env (ws @ '':'' @ hs) =
           \<lparr>canvas_width = 100 * decimal_value ws, canvas_height = 100 * decimal_value hs,
            bitmap = (\<lambda>x y. transparent_black)\<rparr>"
proof -
  have nums: "map js_Number (js_split CHR '':'' (ws @ '':'' @ hs)) = [js_Number ws, js_Number hs]"
    using assms(1,2) by (simp add: split_ratio)
  have w: "js_index [js_Number ws, js_Number hs] 0 = Some (js_Number ws)"
    and h: "js_index [js_Number ws, js_Number hs] 1 = Some (js_Number hs)"
    by (simp_all add: js_index_def)
  have sized: "set_height (set_width createElement_canvas (js_times (Some (js_Number ws)) (Num 100)))
                 (js_times (Some (js_Number hs)) (Num 100)) =
               \<lparr>canvas_width = 100 * decimal_value ws, canvas_height = 100 * decimal_value hs,
                bitmap = (\<lambda>x y. transparent_black)\<rparr>"
    unfolding set_width_def set_height_def
      dimension_exact [OF assms(1) assms(3)] dimension_exact [OF assms(2) assms(4)]
    by (simp add: createElement_canvas_def)
  show ?thesis
    unfolding blank_canvas_def nums Let_def w h sized
    by (simp add: clearRect_blank)
qed

text \<open>
  C6, as the specification states it, for every ratio of positive integers: the number
  assigned to a dimension wraps modulo \<open>2 ^ 32\<close>, so the canvas of \<^verbatim>\<open>42949673:1\<close> is 4
  pixels wide, not 4294967300; and in a browser that serializes bitmaps of up to 65535
  pixels a side the ratio \<^verbatim>\<open>1000:1\<close> gives the empty string, which is no PNG.
\<close>

theorem createBlankCanvas_dimensions_counterexample:
  "canvas_width (blank_canvas (test_browser test_parse) ''42949673:1'') = 4
   \<and> canvas_height (blank_canvas (test_browser test_parse) ''42949673:1'') = 100
   \<and> canvas_width (blank_canvas (test_browser test_parse) ''42949673:1'')
       \<noteq> 100 * decimal_value ''42949673''
   \<and> createBlankCanvas (test_browser test_parse) ''1000:1'' = Some []"
  by (simp add: createBlankCanvas_def blank_canvas_def Let_def js_Number_def is_digit_def
      decimal_value_def digit_value_def round_double_def js_index_def set_width_def
      set_height_def createElement_canvas_def clearRect_def to_unsigned_long_def reflected_def
      toDataURL_def test_browser_def)

text \<open>
  C6, amended: for an aspect ratio written as two non-empty strings of decimal digits
  around a colon, with positive values \<open>W\<close> and \<open>H\<close> such that \<open>100 * W\<close> and \<open>100 * H\<close> are
  at most 2147483647 and the browser serializes a bitmap of that size, the seed generator
  draws a canvas \<open>100 * W\<close> pixels wide and \<open>100 * H\<close> pixels high whose every pixel is
  transparent black, and returns the base64 text of its PNG: the text after the comma of
  the data URL, so without its prefix. The encoder is the browser's; its output, being
  base64, holds no comma.
\<close>

theorem createBlankCanvas_dimensions:
  assumes "ws \<noteq> []" "list_all is_digit ws" "hs \<noteq> []" "list_all is_digit hs"
    and "0 < decimal_value ws" "0 < decimal_value hs"
    and "100 * decimal_value ws \<le> 2147483647" "100 * decimal_value hs \<le> 2147483647"
    and "bitmap_supported env (100 * decimal_value ws) (100 * decimal_value hs)"
    and "\<forall>c. CHR '','' \<notin> set (png_base64 env c)"
  shows "blank_canvas env (ws @ '':'' @ hs) =
           \<lparr>canvas_width = 100 * decimal_value ws, canvas_height = 100 * decimal_value hs,
            bitmap = (\<lambda>x y. (0, 0, 0, 0))\<rparr>
         \<and> createBlankCanvas env (ws @ '':'' @ hs) =
             Some (png_base64 env
                     \<lparr>canvas_width = 100 * decimal_value ws, canvas_height = 100 * decimal_value hs,
                      bitmap = (\<lambda>x y. (0, 0, 0, 0))\<rparr>)"
proof -
  let ?c = "\<lparr>canvas_width = 100 * decimal_value ws, canvas_height = 100 * decimal_value hs,
             bitmap = (\<lambda>x y. transparent_black)\<rparr>"
  have canvas: "blank_canvas env (ws @ '':'' @ hs) = ?c"
    using assms(2,4,7,8) by (rule blank_canvas_of_digits)
  have url: "toDataURL env ?c = ''data:image/png;base64,'' @ png_base64 env ?c"
    using assms(5,6,9) by (simp add: toDataURL_def)
  have "CHR '','' \<notin> set (png_base64 env ?c)"
    using assms(10) by blast
  then have "js_index (js_split CHR '','' (toDataURL env ?c)) 1 = Some (png_base64 env ?c)"
    unfolding url by (rule split_data_url)
  then have "createBlankCanvas env (ws @ '':'' @ hs) = Some (png_base64 env ?c)"
    unfolding createBlankCanvas_def canvas .
  with canvas show ?thesis
    by (simp add: transparent_black_def)
qed

theorem createBlankCanvas_dimensions_witness:
  "list_all is_digit ''16'' \<and> list_all is_digit ''9''
   \<and> decimal_value ''16'' = 16 \<and> decimal_value ''9'' = 9
   \<and> bitmap_supported (test_browser test_parse) 1600 900
   \<and> blank_canvas (test_browser test_parse) ''16:9'' =
       \<lparr>canvas_width = 1600, canvas_height = 900, bitmap = (\<lambda>x y. (0, 0, 0, 0))\<rparr>
   \<and> createBlankCanvas (test_browser test_parse) ''16:9'' = Some ''iVBORw0KGgo=''"
proof -
  have d: "list_all is_digit ''16''" "list_all is_digit ''9''"
    "decimal_value ''16'' = 16" "decimal_value ''9'' = 9"
    by (simp_all add: is_digit_def decimal_value_def digit_value_def)
  have b: "bitmap_supported (test_browser test_parse) 1600 900"
    "\<forall>c. CHR '','' \<notin> set (png_base64 (test_browser test_parse) c)"
    by (simp_all add: test_browser_def)
  have "blank_canvas (test_browser test_parse) (''16'' @ '':'' @ ''9'') =
           \<lparr>canvas_width = 100 * decimal_value ''16'', canvas_height = 100 * decimal_value ''9'',
            bitmap = (\<lambda>x y. (0, 0, 0, 0))\<rparr>
         \<and> createBlankCanvas (test_browser test_parse) (''16'' @ '':'' @ ''9'') =
             Some (png_base64 (test_browser test_parse)
                     \<lparr>canvas_width = 100 * decimal_value ''16'',
                      canvas_height = 100 * decimal_value ''9'',
                      bitmap = (\<lambda>x y. (0, 0, 0, 0))\<rparr>)"
    using d b by (intro createBlankCanvas_dimensions) simp_all
  then show ?thesis
    using d b by (simp add: test_browser_def)
qed

section \<open>Properties of the submitted requests\<close>

text \<open>
  C3, as the specification states it, for every list of reference images and every
  prompt: on an empty list, and on a blank prompt, \<^verbatim>\<open>generateImageWithReference\<close> fails
  before it submits anything, also when the service would answer.
\<close>

theorem generateImageWithReference_no_submission_counterexample:
  "generateImageWithReference (test_browser test_parse) (content_ai (response_of two_images))
     [] ''a cat'' ''16:9'' =
     ([], Inl (Thrown_Error Error ''Please provide at least one reference image.'')) \<and>
   generateImageWithReference (test_browser test_parse) (content_ai (response_of two_images))
     [webp_file] '' '' ''16:9'' =
     ([], Inl (Thrown_Error Error ''Prompt cannot be empty.''))"
  by (simp add: generateImageWithReference_def js_trim_def js_whitespace_def js_truthy_def
      rethrow_def)

text \<open>
  C3, amended: for a list of reference images that is not empty and a prompt that is not
  blank, \<^verbatim>\<open>generateImageWithReference\<close> submits exactly one request, and its part sequence
  is the seed canvas of the aspect ratio (labelled PNG), then the encoded reference images
  in the order of the files, then one text part with the instruction around the prompt.
  For an empty list it fails with an error before it submits anything, and so it does for
  a blank prompt.
\<close>

theorem generateImageWithReference_part_order:
  "(files \<noteq> [] \<and> js_trim prompt \<noteq> [] \<longrightarrow>
      fst (generateImageWithReference env ai files prompt aspectRatio) =
        [Call_generateContent
           \<lparr>model = ''gemini-2.5-flash-image-preview'',
            contents =
              \<lparr>parts =
                 Some (\<lparr>inlineData = Some \<lparr>data = createBlankCanvas env aspectRatio,
                                            mimeType = ''image/png''\<rparr>,
                        text' = None\<rparr>
                       # map (\<lambda>file. fileToGenerativePart file None) files
                       @ [\<lparr>inlineData = None,
                           text' = Some (''Please fill the provided blank transparent canvas with a new image. Use the other reference images as strong inspiration for the style, mood, and subject matter. Follow this specific instruction for the content: \"'' @ prompt @ ''\". The final output must be a single, complete image that perfectly fits the dimensions of the initial blank canvas.'')\<rparr>])\<rparr>,
            config = \<lparr>responseModalities = Some [IMAGE, TEXT], responseMimeType = None, responseSchema = None\<rparr>\<rparr>]) \<and>
   (files = [] \<longrightarrow>
      generateImageWithReference env ai files prompt aspectRatio =
        ([], Inl (Thrown_Error Error ''Please provide at least one reference image.''))) \<and>
   (files \<noteq> [] \<and> js_trim prompt = [] \<longrightarrow>
      generateImageWithReference env ai files prompt aspectRatio =
        ([], Inl (Thrown_Error Error ''Prompt cannot be empty.'')))"
  by (auto simp add: generateImageWithReference_def js_truthy_def Let_def text_part_def
      reference_prompt_def modalities_config_def rethrow_def)

theorem generateImageWithReference_part_order_witness:
  "fst (generateImageWithReference (test_browser test_parse) (failing_ai (Thrown_Other None))
          [webp_file, untyped_file] ''a cat'' ''16:9'') =
     [Call_generateContent
        \<lparr>model = ''gemini-2.5-flash-image-preview'',
         contents =
           \<lparr>parts =
              Some [\<lparr>inlineData = Some \<lparr>data = Some ''iVBORw0KGgo='', mimeType = ''image/png''\<rparr>,
                     text' = None\<rparr>,
                    \<lparr>inlineData = Some \<lparr>data = Some ''REVG'', mimeType = ''image/webp''\<rparr>,
                     text' = None\<rparr>,
                    \<lparr>inlineData = Some \<lparr>data = Some ''QUJD'', mimeType = []\<rparr>, text' = None\<rparr>,
                    \<lparr>inlineData = None,
                     text' = Some ''Please fill the provided blank transparent canvas with a new image. Use the other reference images as strong inspiration for the style, mood, and subject matter. Follow this specific instruction for the content: \"a cat\". The final output must be a single, complete image that perfectly fits the dimensions of the initial blank canvas.''\<rparr>]\<rparr>,
         config = \<lparr>responseModalities = Some [IMAGE, TEXT], responseMimeType = None, responseSchema = None\<rparr>\<rparr>] \<and>
   generateImageWithReference (test_browser test_parse) (failing_ai (Thrown_Other None))
     [] ''a cat'' ''16:9'' =
     ([], Inl (Thrown_Error Error ''Please provide at least one reference image.'')) \<and>
   generateImageWithReference (test_browser test_parse) (failing_ai (Thrown_Other None))
     [webp_file] '' '' ''16:9'' =
     ([], Inl (Thrown_Error Error ''Prompt cannot be empty.''))"
  using generateImageWithReference_part_order [of "[webp_file, untyped_file]" "''a cat''"
      "test_browser test_parse" "failing_ai (Thrown_Other None)" "''16:9''"]
    generateImageWithReference_part_order [of "[]" "''a cat''"
      "test_browser test_parse" "failing_ai (Thrown_Other None)" "''16:9''"]
    generateImageWithReference_part_order [of "[webp_file]" "'' ''"
      "test_browser test_parse" "failing_ai (Thrown_Other None)" "''16:9''"]
  by (simp add: js_trim_def js_whitespace_def fileToGenerativePart_def webp_file_def
      untyped_file_def js_truthy_def js_index_def Let_def
      createBlankCanvas_def blank_canvas_def js_Number_def is_digit_def
      decimal_value_def digit_value_def round_double_def set_width_def
      set_height_def createElement_canvas_def clearRect_def to_unsigned_long_def reflected_def
      toDataURL_def test_browser_def)

text \<open>
  C8: \<^verbatim>\<open>generatePromptIdeas\<close> with three empty form fields and at least one reference image
  submits one request whose first part is the text of the image-only template; with any
  form field not empty it submits one request whose first part is the text of the
  form-driven template around the three fields, whatever the number of reference images.
  The encoded images follow the instruction.
\<close>

theorem generatePromptIdeas_template:
  "(productName formData = [] \<and> productPosition formData = [] \<and> additionalInfo formData = []
      \<and> referenceImages \<noteq> [] \<longrightarrow>
        fst (generatePromptIdeas env ai formData referenceImages) =
          [Call_generateContent
             \<lparr>model = ''gemini-2.5-flash'',
              contents =
                \<lparr>parts =
                   Some (\<lparr>inlineData = None,
                          text' = Some (''\<newline>        You are an expert prompt writer for an AI image generator.'' @
                    ''\<newline>        Analyze the following image(s) closely. Based *only* on the visual information (style, subject, composition, lighting, colors), generate 4 distinct, creative, and detailed prompt ideas in English.'' @
                    ''\<newline>        The prompts should describe how to create a similar or inspired image.'' @
                    ''\<newline>        Return the ideas as a JSON object with a single key \"ideas\" which is an array of 4 strings.'' @
                    ''\<newline>      '')\<rparr>
                         # map (\<lambda>file. fileToGenerativePart file None) referenceImages)\<rparr>,
              config =
                \<lparr>responseModalities = None, responseMimeType = Some ''application/json'',
                responseSchema =
                  Some (Type_OBJECT
                          [(''ideas'',
                            Type_ARRAY Type_STRING
                              (Some ''An array of 4 distinct and creative prompt ideas for product photography.''))])\<rparr>\<rparr>]) \<and>
   (productName formData \<noteq> [] \<or> productPosition formData \<noteq> [] \<or> additionalInfo formData \<noteq> [] \<longrightarrow>
        fst (generatePromptIdeas env ai formData referenceImages) =
          [Call_generateContent
             \<lparr>model = ''gemini-2.5-flash'',
              contents =
                \<lparr>parts =
                   Some (\<lparr>inlineData = None,
                          text' = Some (''\<newline>        You are an expert prompt writer for an AI image generator, specializing in stunning product photography for small businesses (UMKM).'' @
                    ''\<newline>        Based on the following information, generate 4 distinct, creative, and detailed prompt ideas.'' @
                    ''\<newline>        The prompts should be in English.'' @
                    ''\<newline>'' @
                    ''\<newline>        Product Name: \"'' @ productName formData @ ''\"'' @
                    ''\<newline>        Product Position/Action: \"'' @ productPosition formData @ ''\"'' @
                    ''\<newline>        Additional Details (style, background, mood, colors): \"'' @ additionalInfo formData @ ''\"'' @
                    ''\<newline>'' @
                    ''\<newline>        Return the ideas as a JSON object with a single key \"ideas\" which is an array of 4 strings.'' @
                    ''\<newline>      '')\<rparr>
                         # map (\<lambda>file. fileToGenerativePart file None) referenceImages)\<rparr>,
              config =
                \<lparr>responseModalities = None, responseMimeType = Some ''application/json'',
                responseSchema =
                  Some (Type_OBJECT
                          [(''ideas'',
                            Type_ARRAY Type_STRING
                              (Some ''An array of 4 distinct and creative prompt ideas for product photography.''))])\<rparr>\<rparr>])"
  by (auto simp add: generatePromptIdeas_def hasTextData_def js_truthy_def Let_def text_part_def
      image_only_prompt_def form_prompt_def ideas_config_def)

theorem generatePromptIdeas_template_witness:
  "fst (generatePromptIdeas (test_browser test_parse) (failing_ai (Thrown_Other None))
          \<lparr>productName = [], productPosition = [], additionalInfo = []\<rparr> [webp_file]) =
     [Call_generateContent
        \<lparr>model = ''gemini-2.5-flash'',
         contents =
           \<lparr>parts =
              Some [\<lparr>inlineData = None,
                     text' = Some ''\<newline>        You are an expert prompt writer for an AI image generator.\<newline>        Analyze the following image(s) closely. Based *only* on the visual information (style, subject, composition, lighting, colors), generate 4 distinct, creative, and detailed prompt ideas in English.\<newline>        The prompts should describe how to create a similar or inspired image.\<newline>        Return the ideas as a JSON object with a single key \"ideas\" which is an array of 4 strings.\<newline>      ''\<rparr>,
                    \<lparr>inlineData = Some \<lparr>data = Some ''REVG'', mimeType = ''image/webp''\<rparr>,
                     text' = None\<rparr>]\<rparr>,
         config =
           \<lparr>responseModalities = None, responseMimeType = Some ''application/json'',
                responseSchema =
                  Some (Type_OBJECT
                          [(''ideas'',
                            Type_ARRAY Type_STRING
                              (Some ''An array of 4 distinct and creative prompt ideas for product photography.''))])\<rparr>\<rparr>] \<and>
   fst (generatePromptIdeas (test_browser test_parse) (failing_ai (Thrown_Other None))
          \<lparr>productName = ''Kopi'', productPosition = [], additionalInfo = []\<rparr> []) =
     [Call_generateContent
        \<lparr>model = ''gemini-2.5-flash'',
         contents =
           \<lparr>parts =
              Some [\<lparr>inlineData = None,
                     text' = Some ''\<newline>        You are an expert prompt writer for an AI image generator, specializing in stunning product photography for small businesses (UMKM).\<newline>        Based on the following information, generate 4 distinct, creative, and detailed prompt ideas.\<newline>        The prompts should be in English.\<newline>\<newline>        Product Name: \"Kopi\"\<newline>        Product Position/Action: \"\"\<newline>        Additional Details (style, background, mood, colors): \"\"\<newline>\<newline>        Return the ideas as a JSON object with a single key \"ideas\" which is an array of 4 strings.\<newline>      ''\<rparr>]\<rparr>,
         config =
           \<lparr>responseModalities = None, responseMimeType = Some ''application/json'',
                responseSchema =
                  Some (Type_OBJECT
                          [(''ideas'',
                            Type_ARRAY Type_STRING
                              (Some ''An array of 4 distinct and creative prompt ideas for product photography.''))])\<rparr>\<rparr>] \<and>
   fst (generatePromptIdeas (test_browser test_parse) (failing_ai (Thrown_Other None))
          \<lparr>productName = [], productPosition = [], additionalInfo = ''warm light''\<rparr> [webp_file]) =
     [Call_generateContent
        \<lparr>model = ''gemini-2.5-flash'',
         contents =
           \<lparr>parts =
              Some [\<lparr>inlineData = None,
                     text' = Some ''\<newline>        You are an expert prompt writer for an AI image generator, specializing in stunning product photography for small businesses (UMKM).\<newline>        Based on the following information, generate 4 distinct, creative, and detailed prompt ideas.\<newline>        The prompts should be in English.\<newline>\<newline>        Product Name: \"\"\<newline>        Product Position/Action: \"\"\<newline>        Additional Details (style, background, mood, colors): \"warm light\"\<newline>\<newline>        Return the ideas as a JSON object with a single key \"ideas\" which is an array of 4 strings.\<newline>      ''\<rparr>,
                    \<lparr>inlineData = Some \<lparr>data = Some ''REVG'', mimeType = ''image/webp''\<rparr>,
                     text' = None\<rparr>]\<rparr>,
         config =
           \<lparr>responseModalities = None, responseMimeType = Some ''application/json'',
                responseSchema =
                  Some (Type_OBJECT
                          [(''ideas'',
                            Type_ARRAY Type_STRING
                              (Some ''An array of 4 distinct and creative prompt ideas for product photography.''))])\<rparr>\<rparr>]"
  using generatePromptIdeas_template [of
      "\<lparr>productName = [], productPosition = [], additionalInfo = []\<rparr>" "[webp_file]"
      "test_browser test_parse" "failing_ai (Thrown_Other None)"]
    generatePromptIdeas_template [of
      "\<lparr>productName = ''Kopi'', productPosition = [], additionalInfo = []\<rparr>" "[]"
      "test_browser test_parse" "failing_ai (Thrown_Other None)"]
    generatePromptIdeas_template [of
      "\<lparr>productName = [], productPosition = [], additionalInfo = ''warm light''\<rparr>" "[webp_file]"
      "test_browser test_parse" "failing_ai (Thrown_Other None)"]
  by (simp add: fileToGenerativePart_def webp_file_def js_truthy_def js_index_def Let_def)

section \<open>Properties of the error handling\<close>

lemma outcome_content:
  "service_outcome ai (Call_generateContent p) = Inl e \<longleftrightarrow> models_generateContent ai p = Inl e"
  by (cases "models_generateContent ai p") (simp_all add: service_outcome_def)

lemma outcome_images:
  "service_outcome ai (Call_generateImages p) = Inl e \<longleftrightarrow> models_generateImages ai p = Inl e"
  by (cases "models_generateImages ai p") (simp_all add: service_outcome_def)

lemma rethrow_Inl:
  "rethrow d (Inl e) =
     Inl (Thrown_Error Error (case e of Thrown_Error cls m \<Rightarrow> m | Thrown_Other mo \<Rightarrow> d))"
  by (simp add: rethrow_def)

lemma editImage_rethrows:
  "map (service_outcome ai) (fst (editImage ai imageFile prompt)) = [Inl e] \<Longrightarrow>
     snd (editImage ai imageFile prompt) =
       Inl (Thrown_Error Error
              (case e of Thrown_Error cls m \<Rightarrow> m
               | Thrown_Other mo \<Rightarrow> ''An unexpected error occurred while communicating with the AI.''))"
  by (simp add: editImage_def Let_def outcome_content rethrow_Inl)

lemma editImageWithMask_rethrows:
  "map (service_outcome ai) (fst (editImageWithMask ai imageFile maskBlob prompt)) = [Inl e] \<Longrightarrow>
     snd (editImageWithMask ai imageFile maskBlob prompt) =
       Inl (Thrown_Error Error
              (case e of Thrown_Error cls m \<Rightarrow> m
               | Thrown_Other mo \<Rightarrow> ''An unexpected error occurred while communicating with the AI.''))"
  by (simp add: editImageWithMask_def Let_def outcome_content rethrow_Inl)

lemma getCreativeIdeas_rethrows:
  "map (service_outcome ai) (fst (getCreativeIdeas env ai imageFile)) = [Inl e] \<Longrightarrow>
     snd (getCreativeIdeas env ai imageFile) =
       Inl (Thrown_Error Error
              (case e of Thrown_Error cls m \<Rightarrow> m
               | Thrown_Other mo \<Rightarrow> ''An unexpected error occurred while generating ideas.''))"
  by (simp add: getCreativeIdeas_def Let_def outcome_content rethrow_Inl)

lemma generateImages_rethrows:
  "map (service_outcome ai) (fst (generateImages ai prompt numberOfImages aspectRatio)) = [Inl e] \<Longrightarrow>
     snd (generateImages ai prompt numberOfImages aspectRatio) =
       Inl (Thrown_Error Error
              (case e of Thrown_Error cls m \<Rightarrow> m
               | Thrown_Other mo \<Rightarrow> ''An unexpected error occurred while generating images.''))"
  by (auto simp add: generateImages_def Let_def outcome_images rethrow_Inl split: if_splits)

lemma generateImageWithReference_rethrows:
  "map (service_outcome ai) (fst (generateImageWithReference env ai files prompt aspectRatio)) = [Inl e] \<Longrightarrow>
     snd (generateImageWithReference env ai files prompt aspectRatio) =
       Inl (Thrown_Error Error
              (case e of Thrown_Error cls m \<Rightarrow> m
               | Thrown_Other mo \<Rightarrow> ''An unexpected error occurred while generating the image.''))"
  by (auto simp add: generateImageWithReference_def Let_def outcome_content rethrow_Inl split: if_splits)

lemma generatePromptIdeas_rethrows:
  "map (service_outcome ai) (fst (generatePromptIdeas env ai formData referenceImages)) = [Inl e] \<Longrightarrow>
     snd (generatePromptIdeas env ai formData referenceImages) =
       Inl (Thrown_Error Error
              (case e of Thrown_Error cls m \<Rightarrow> m
               | Thrown_Other mo \<Rightarrow> ''An unexpected error occurred while generating ideas.''))"
  by (auto simp add: generatePromptIdeas_def Let_def outcome_content rethrow_Inl split: if_splits)

text \<open>
  C7, as the specification states it: the message of the failure when the failure has
  one, else the default. The handler tests the class of the thrown value, not its
  message: a thrown value that is no \<^verbatim>\<open>Error\<close> and carries the message
  \<^verbatim>\<open>quota exceeded\<close> is re-raised with the default, and an \<^verbatim>\<open>Error\<close> without message is
  re-raised with the empty message, not with the default.
\<close>

theorem operations_rethrow_counterexample:
  "snd (editImage (failing_ai (Thrown_Other (Some ''quota exceeded''))) webp_file ''make it blue'') =
     Inl (Thrown_Error Error ''An unexpected error occurred while communicating with the AI.'')
   \<and> spec_surfaced_message ''An unexpected error occurred while communicating with the AI.''
        (Thrown_Other (Some ''quota exceeded'')) = ''quota exceeded''
   \<and> snd (editImage (failing_ai (Thrown_Error Error [])) webp_file ''make it blue'') =
       Inl (Thrown_Error Error [])
   \<and> spec_surfaced_message ''An unexpected error occurred while communicating with the AI.'' (Thrown_Error Error []) =
       ''An unexpected error occurred while communicating with the AI.''"
  by (simp add: editImage_def Let_def failing_ai_def rethrow_def spec_surfaced_message_def
      js_truthy_def)

text \<open>
  C7, amended: whenever one of the six operations has issued its call and the service
  has thrown on it, the operation fails with a plain \<^verbatim>\<open>Error\<close> (whatever the class of
  the failure was). Its message is the message of the failure when the failure is an
  instance of \<^verbatim>\<open>Error\<close>, also when that message is empty, and the fixed default of the
  operation when the thrown value is no instance of \<^verbatim>\<open>Error\<close>, also when it carries a
  message.
\<close>

theorem operations_rethrow:
  "(map (service_outcome ai) (fst (editImage ai imageFile prompt)) = [Inl e] \<longrightarrow>
      snd (editImage ai imageFile prompt) =
        Inl (Thrown_Error Error
               (case e of Thrown_Error cls m \<Rightarrow> m
                | Thrown_Other mo \<Rightarrow> ''An unexpected error occurred while communicating with the AI.''))) \<and>
   (map (service_outcome ai) (fst (editImageWithMask ai imageFile maskBlob prompt)) = [Inl e] \<longrightarrow>
      snd (editImageWithMask ai imageFile maskBlob prompt) =
        Inl (Thrown_Error Error
               (case e of Thrown_Error cls m \<Rightarrow> m
                | Thrown_Other mo \<Rightarrow> ''An unexpected error occurred while communicating with the AI.''))) \<and>
   (map (service_outcome ai) (fst (getCreativeIdeas env ai imageFile)) = [Inl e] \<longrightarrow>
      snd (getCreativeIdeas env ai imageFile) =
        Inl (Thrown_Error Error
               (case e of Thrown_Error cls m \<Rightarrow> m
                | Thrown_Other mo \<Rightarrow> ''An unexpected error occurred while generating ideas.''))) \<and>
   (map (service_outcome ai) (fst (generateImages ai prompt numberOfImages aspectRatio)) = [Inl e] \<longrightarrow>
      snd (generateImages ai prompt numberOfImages aspectRatio) =
        Inl (Thrown_Error Error
               (case e of Thrown_Error cls m \<Rightarrow> m
                | Thrown_Other mo \<Rightarrow> ''An unexpected error occurred while generating images.''))) \<and>
   (map (service_outcome ai) (fst (generateImageWithReference env ai files prompt aspectRatio)) = [Inl e] \<longrightarrow>
      snd (generateImageWithReference env ai files prompt aspectRatio) =
        Inl (Thrown_Error Error
               (case e of Thrown_Error cls m \<Rightarrow> m
                | Thrown_Other mo \<Rightarrow> ''An unexpected error occurred while generating the image.''))) \<and>
   (map (service_outcome ai) (fst (generatePromptIdeas env ai formData referenceImages)) = [Inl e] \<longrightarrow>
      snd (generatePromptIdeas env ai formData referenceImages) =
        Inl (Thrown_Error Error
               (case e of Thrown_Error cls m \<Rightarrow> m
                | Thrown_Other mo \<Rightarrow> ''An unexpected error occurred while generating ideas.'')))"
  using editImage_rethrows editImageWithMask_rethrows getCreativeIdeas_rethrows
    generateImages_rethrows generateImageWithReference_rethrows generatePromptIdeas_rethrows
  by simp

theorem operations_rethrow_witness:
  "snd (editImage (failing_ai quota_error) webp_file ''make it blue'') =
     Inl (Thrown_Error Error ''quota exceeded'') \<and>
   snd (editImageWithMask (failing_ai quota_error) webp_file jpeg_blob ''make it blue'') =
     Inl (Thrown_Error Error ''quota exceeded'') \<and>
   snd (getCreativeIdeas (test_browser test_parse) (failing_ai quota_error) webp_file) =
     Inl (Thrown_Error Error ''quota exceeded'') \<and>
   snd (generateImages (failing_ai quota_error) ''make it blue'' 2 ''1:1'') =
     Inl (Thrown_Error Error ''quota exceeded'') \<and>
   snd (generateImageWithReference (test_browser test_parse) (failing_ai quota_error)
          [webp_file] ''make it blue'' ''1:1'') =
     Inl (Thrown_Error Error ''quota exceeded'') \<and>
   snd (generatePromptIdeas (test_browser test_parse) (failing_ai quota_error)
          empty_form [webp_file]) =
     Inl (Thrown_Error Error ''quota exceeded'') \<and>
   snd (editImage (failing_ai (Thrown_Error TypeError [])) webp_file ''make it blue'') =
     Inl (Thrown_Error Error []) \<and>
   snd (editImageWithMask (failing_ai (Thrown_Error TypeError [])) webp_file jpeg_blob ''make it blue'') =
     Inl (Thrown_Error Error []) \<and>
   snd (getCreativeIdeas (test_browser test_parse) (failing_ai (Thrown_Error TypeError [])) webp_file) =
     Inl (Thrown_Error Error []) \<and>
   snd (generateImages (failing_ai (Thrown_Error TypeError [])) ''make it blue'' 2 ''1:1'') =
     Inl (Thrown_Error Error []) \<and>
   snd (generateImageWithReference (test_browser test_parse) (failing_ai (Thrown_Error TypeError []))
          [webp_file] ''make it blue'' ''1:1'') =
     Inl (Thrown_Error Error []) \<and>
   snd (generatePromptIdeas (test_browser test_parse) (failing_ai (Thrown_Error TypeError []))
          empty_form [webp_file]) =
     Inl (Thrown_Error Error []) \<and>
   snd (editImage (failing_ai (Thrown_Other None)) webp_file ''make it blue'') =
     Inl (Thrown_Error Error ''An unexpected error occurred while communicating with the AI.'') \<and>
   snd (editImageWithMask (failing_ai (Thrown_Other None)) webp_file jpeg_blob ''make it blue'') =
     Inl (Thrown_Error Error ''An unexpected error occurred while communicating with the AI.'') \<and>
   snd (getCreativeIdeas (test_browser test_parse) (failing_ai (Thrown_Other None)) webp_file) =
     Inl (Thrown_Error Error ''An unexpected error occurred while generating ideas.'') \<and>
   snd (generateImages (failing_ai (Thrown_Other None)) ''make it blue'' 2 ''1:1'') =
     Inl (Thrown_Error Error ''An unexpected error occurred while generating images.'') \<and>
   snd (generateImageWithReference (test_browser test_parse) (failing_ai (Thrown_Other None))
          [webp_file] ''make it blue'' ''1:1'') =
     Inl (Thrown_Error Error ''An unexpected error occurred while generating the image.'') \<and>
   snd (generatePromptIdeas (test_browser test_parse) (failing_ai (Thrown_Other None))
          empty_form [webp_file]) =
     Inl (Thrown_Error Error ''An unexpected error occurred while generating ideas.'') \<and>
   snd (editImage (failing_ai (Thrown_Other (Some ''quota exceeded''))) webp_file ''make it blue'') =
     Inl (Thrown_Error Error ''An unexpected error occurred while communicating with the AI.'') \<and>
   snd (editImageWithMask (failing_ai (Thrown_Other (Some ''quota exceeded''))) webp_file jpeg_blob ''make it blue'') =
     Inl (Thrown_Error Error ''An unexpected error occurred while communicating with the AI.'') \<and>
   snd (getCreativeIdeas (test_browser test_parse) (failing_ai (Thrown_Other (Some ''quota exceeded''))) webp_file) =
     Inl (Thrown_Error Error ''An unexpected error occurred while generating ideas.'') \<and>
   snd (generateImages (failing_ai (Thrown_Other (Some ''quota exceeded''))) ''make it blue'' 2 ''1:1'') =
     Inl (Thrown_Error Error ''An unexpected error occurred while generating images.'') \<and>
   snd (generateImageWithReference (test_browser test_parse) (failing_ai (Thrown_Other (Some ''quota exceeded'')))
          [webp_file] ''make it blue'' ''1:1'') =
     Inl (Thrown_Error Error ''An unexpected error occurred while generating the image.'') \<and>
   snd (generatePromptIdeas (test_browser test_parse) (failing_ai (Thrown_Other (Some ''quota exceeded'')))
          empty_form [webp_file]) =
     Inl (Thrown_Error Error ''An unexpected error occurred while generating ideas.'')"
proof -
  have calls: "\<And>e.
      map (service_outcome (failing_ai e))
        (fst (editImage (failing_ai e) webp_file ''make it blue'')) = [Inl e] \<and>
      map (service_outcome (failing_ai e))
        (fst (editImageWithMask (failing_ai e) webp_file jpeg_blob ''make it blue'')) = [Inl e] \<and>
      map (service_outcome (failing_ai e))
        (fst (getCreativeIdeas (test_browser test_parse) (failing_ai e) webp_file)) = [Inl e] \<and>
      map (service_outcome (failing_ai e))
        (fst (generateImages (failing_ai e) ''make it blue'' 2 ''1:1'')) = [Inl e] \<and>
      map (service_outcome (failing_ai e))
        (fst (generateImageWithReference (test_browser test_parse) (failing_ai e)
          [webp_file] ''make it blue'' ''1:1'')) = [Inl e] \<and>
      map (service_outcome (failing_ai e))
        (fst (generatePromptIdeas (test_browser test_parse) (failing_ai e)
          empty_form [webp_file])) = [Inl e]"
    by (simp add: editImage_def editImageWithMask_def getCreativeIdeas_def generateImages_def
        generateImageWithReference_def generatePromptIdeas_def Let_def service_outcome_def
        failing_ai_def js_trim_def js_whitespace_def js_truthy_def hasTextData_def empty_form_def)
  show ?thesis
    using calls [of "quota_error"]
      calls [of "Thrown_Error TypeError []"]
      calls [of "Thrown_Other None"]
      calls [of "Thrown_Other (Some ''quota exceeded'')"]
      operations_rethrow [where ai = "failing_ai (quota_error)" and e = "quota_error"
        and imageFile = webp_file and maskBlob = jpeg_blob and prompt = "''make it blue''"
        and env = "test_browser test_parse" and numberOfImages = 2 and aspectRatio = "''1:1''"
        and files = "[webp_file]" and formData = empty_form and referenceImages = "[webp_file]"]
      operations_rethrow [where ai = "failing_ai (Thrown_Error TypeError [])" and e = "Thrown_Error TypeError []"
        and imageFile = webp_file and maskBlob = jpeg_blob and prompt = "''make it blue''"
        and env = "test_browser test_parse" and numberOfImages = 2 and aspectRatio = "''1:1''"
        and files = "[webp_file]" and formData = empty_form and referenceImages = "[webp_file]"]
      operations_rethrow [where ai = "failing_ai (Thrown_Other None)" and e = "Thrown_Other None"
        and imageFile = webp_file and maskBlob = jpeg_blob and prompt = "''make it blue''"
        and env = "test_browser test_parse" and numberOfImages = 2 and aspectRatio = "''1:1''"
        and files = "[webp_file]" and formData = empty_form and referenceImages = "[webp_file]"]
      operations_rethrow [where ai = "failing_ai (Thrown_Other (Some ''quota exceeded''))" and e = "Thrown_Other (Some ''quota exceeded'')"
        and imageFile = webp_file and maskBlob = jpeg_blob and prompt = "''make it blue''"
        and env = "test_browser test_parse" and numberOfImages = 2 and aspectRatio = "''1:1''"
        and files = "[webp_file]" and formData = empty_form and referenceImages = "[webp_file]"]
    by (simp add: quota_error_def)
qed

section \<open>Properties of the prompt ideas\<close>

lemma rethrow_Inr_iff: "rethrow d r = Inr v \<longleftrightarrow> r = Inr v"
  by (cases r) (simp_all add: rethrow_def)

lemma rethrow_generic: "\<forall>v. r \<noteq> Inr v \<Longrightarrow> \<exists>m. rethrow d r = Inl (Thrown_Error Error m)"
  by (cases r) (simp_all add: rethrow_def)

lemma isArray_elements:
  "isArray v \<Longrightarrow> 0 < length (array_elements v) \<Longrightarrow> \<exists>xs. v = Some (JArr xs) \<and> xs \<noteq> []"
  by (cases v rule: isArray.cases) simp_all

lemma outcome_answer:
  "service_outcome ai (Call_generateContent p) = Inr (Inl response)
     \<longleftrightarrow> models_generateContent ai p = Inr response"
  by (cases "models_generateContent ai p") (simp_all add: service_outcome_def)

lemma ideas_of_response_nonempty: "ideas_of_response env response = Inr ideas \<Longrightarrow> ideas \<noteq> []"
  by (auto simp add: ideas_of_response_def Let_def split: if_splits sum.splits)

lemma ideas_of_response_fails:
  assumes "\<not> js_truthy (response_text response)
          \<or> (\<exists>e. JSON_parse env (the (response_text response)) = Inl e)
          \<or> (\<exists>result. JSON_parse env (the (response_text response)) = Inr result
                \<and> (\<forall>xs. json_property result ''ideas'' = Inr (Some (JArr xs)) \<longrightarrow> xs = []))"
  shows "ideas_of_response env response \<noteq> Inr v"
  using assms isArray_elements
  by (auto simp add: ideas_of_response_def Let_def split: if_splits sum.splits) blast

lemma generatePromptIdeas_unfold:
  "generatePromptIdeas env ai formData referenceImages =
     (if \<not> hasTextData formData \<and> length referenceImages = 0
      then ([], Inl (Thrown_Error Error ''Please provide some information or a reference image to generate ideas.''))
      else
        (let params = \<lparr>model = ''gemini-2.5-flash'',
                       contents = \<lparr>parts = Some ([text_part (if length referenceImages > 0 \<and> \<not> hasTextData formData
                           then image_only_prompt
                           else form_prompt formData)] @ map (\<lambda>file. fileToGenerativePart file None) referenceImages)\<rparr>,
                       config = ideas_config (Some ''An array of 4 distinct and creative prompt ideas for product photography.'')\<rparr>
         in ([Call_generateContent params],
             rethrow ''An unexpected error occurred while generating ideas.''
               (case models_generateContent ai params of
                  Inl e \<Rightarrow> Inl e
                | Inr response \<Rightarrow> ideas_of_response env response))))"
  by (simp add: generatePromptIdeas_def ideas_of_response_def Let_def rethrow_def cong: sum.case_cong)

text \<open>
  C10, as the specification states it, a returned array has at least one string: the
  elements of the array are not inspected, so an answer whose ideas are a number and
  \<^verbatim>\<open>null\<close> is returned as it is, and holds no string.
\<close>

theorem generatePromptIdeas_strings_counterexample:
  "snd (generatePromptIdeas (test_browser test_parse)
          (content_ai (text_response ''{\"ideas\":[1,null]}'')) empty_form [webp_file]) =
     Inr [JNum 1, JNull]
   \<and> \<not> (\<exists>s. JStr s \<in> set [JNum 1, JNull])"
  by (simp add: generatePromptIdeas_def Let_def content_ai_def text_response_def test_browser_def
      test_parse_def empty_form_def hasTextData_def js_truthy_def rethrow_def)

text \<open>
  C10, amended: a list that \<^verbatim>\<open>generatePromptIdeas\<close> returns is never empty; it has at
  least one element, of whatever JSON type. When the service has answered the call and
  the response has no text, or its text does not parse, or the parsed value has no
  non-empty array under \<^verbatim>\<open>ideas\<close> (the property is missing, is not an array, or is an
  empty array), the operation fails with an error.
\<close>

theorem generatePromptIdeas_never_empty:
  "(snd (generatePromptIdeas env ai formData referenceImages) = Inr ideas \<longrightarrow> ideas \<noteq> []) \<and>
   (map (service_outcome ai) (fst (generatePromptIdeas env ai formData referenceImages))
        = [Inr (Inl response)]
      \<and> (\<not> js_truthy (response_text response)
          \<or> (\<exists>e. JSON_parse env (the (response_text response)) = Inl e)
          \<or> (\<exists>result. JSON_parse env (the (response_text response)) = Inr result
                \<and> (\<forall>xs. json_property result ''ideas'' = Inr (Some (JArr xs)) \<longrightarrow> xs = []))) \<longrightarrow>
        (\<exists>m. snd (generatePromptIdeas env ai formData referenceImages) = Inl (Thrown_Error Error m)))"
proof (intro conjI impI)
  assume "snd (generatePromptIdeas env ai formData referenceImages) = Inr ideas"
  then show "ideas \<noteq> []"
    by (auto simp add: generatePromptIdeas_unfold Let_def rethrow_Inr_iff
        dest: ideas_of_response_nonempty split: if_splits sum.splits)
next
  assume h: "map (service_outcome ai) (fst (generatePromptIdeas env ai formData referenceImages))
        = [Inr (Inl response)]
      \<and> (\<not> js_truthy (response_text response)
          \<or> (\<exists>e. JSON_parse env (the (response_text response)) = Inl e)
          \<or> (\<exists>result. JSON_parse env (the (response_text response)) = Inr result
                \<and> (\<forall>xs. json_property result ''ideas'' = Inr (Some (JArr xs)) \<longrightarrow> xs = [])))"
  then have bad: "\<forall>v. ideas_of_response env response \<noteq> Inr v"
    using ideas_of_response_fails by blast
  from h show "\<exists>m. snd (generatePromptIdeas env ai formData referenceImages) = Inl (Thrown_Error Error m)"
    using rethrow_generic [OF bad]
    by (auto simp add: generatePromptIdeas_unfold Let_def outcome_answer split: if_splits)
qed

theorem generatePromptIdeas_never_empty_witness:
  "snd (generatePromptIdeas (test_browser test_parse) (content_ai (text_response ''{\"ideas\":[\"a\"]}''))
          empty_form [webp_file]) = Inr [JStr ''a''] \<and>
   [JStr ''a''] \<noteq> [] \<and>
   snd (generatePromptIdeas (test_browser test_parse) (content_ai (text_response ''{\"ideas\":[]}''))
          empty_form [webp_file]) =
     Inl (Thrown_Error Error ''The AI did not return valid prompt ideas. Please try again.'') \<and>
   snd (generatePromptIdeas (test_browser test_parse) (content_ai (text_response ''{\"ideas\":''))
          empty_form [webp_file]) = Inl (Thrown_Error Error ''Unexpected token'') \<and>
   snd (generatePromptIdeas (test_browser test_parse) (content_ai (text_response []))
          empty_form [webp_file]) =
     Inl (Thrown_Error Error ''The AI did not return valid prompt ideas. Please try again.'') \<and>
   snd (generatePromptIdeas (test_browser test_parse) (content_ai (text_response ''null''))
          empty_form [webp_file]) =
     Inl (Thrown_Error Error
            (''Cannot read properties of null (reading '' @ [CHR 0x27] @ ''ideas''
               @ [CHR 0x27] @ '')''))"
  using
    generatePromptIdeas_never_empty [where env = "test_browser test_parse"
      and ai = "content_ai (text_response ''{\"ideas\":[\"a\"]}'')" and formData = empty_form
      and referenceImages = "[webp_file]" and ideas = "[JStr ''a'']"]
    generatePromptIdeas_never_empty [where env = "test_browser test_parse"
      and ai = "content_ai (text_response ''{\"ideas\":[]}'')" and formData = empty_form
      and referenceImages = "[webp_file]" and response = "text_response ''{\"ideas\":[]}''"]
    generatePromptIdeas_never_empty [where env = "test_browser test_parse"
      and ai = "content_ai (text_response ''{\"ideas\":'')" and formData = empty_form
      and referenceImages = "[webp_file]" and response = "text_response ''{\"ideas\":''"]
    generatePromptIdeas_never_empty [where env = "test_browser test_parse"
      and ai = "content_ai (text_response [])" and formData = empty_form
      and referenceImages = "[webp_file]" and response = "text_response []"]
    generatePromptIdeas_never_empty [where env = "test_browser test_parse"
      and ai = "content_ai (text_response ''null'')" and formData = empty_form
      and referenceImages = "[webp_file]" and response = "text_response ''null''"]
  by (simp add: generatePromptIdeas_def Let_def content_ai_def text_response_def test_browser_def
      test_parse_def empty_form_def hasTextData_def js_truthy_def rethrow_def)
section \<open>The operations on example inputs\<close>

text \<open>
  The paths of the operations that no claim is about, run on concrete inputs.
\<close>

lemma bit_length_examples:
  "bit_length 9007199254740993 = 54"
  "bit_length 9007199254740995 = 54"
  "bit_length 900719925474099400 = 60"
  by (simp_all add: bit_length.simps)

lemma bit_length_power: "bit_length (2 ^ k) = Suc k"
  by (induction k) (simp_all add: bit_length.simps)

lemma round_double_examples:
  "round_double 9007199254740993 = Num 9007199254740992"
  "round_double 9007199254740995 = Num 9007199254740996"
  "js_times (Some (Num 9007199254740994)) (Num 100) = Num 900719925474099456"
  by (simp_all add: round_double_def bit_length_examples Let_def)

lemma round_double_overflow: "round_double (2 ^ 1024) = Infinity"
proof -
  have "(2::nat) ^ 1024 div 2 ^ 972 = 2 ^ 52"
    by (simp add: power_diff)
  moreover have "(2::nat) ^ 1024 mod 2 ^ 972 = 0"
    by (simp add: le_imp_power_dvd)
  moreover have "(2::nat) ^ 52 * 2 ^ 972 = 2 ^ 1024"
    by (simp add: power_add [symmetric])
  ultimately show ?thesis
    by (simp add: round_double_def bit_length_power Let_def del: power_numeral)
qed

lemma blank_canvas_examples:
  "canvas_width (blank_canvas (test_browser test_parse) ''30000000:1'') = 300"
  "canvas_height (blank_canvas (test_browser test_parse) ''1:30000000'') = 150"
  "canvas_width (blank_canvas (test_browser test_parse) ''a:b'') = 0"
  "canvas_height (blank_canvas (test_browser test_parse) ''16'') = 0"
  "createBlankCanvas (test_browser test_parse) ''16'' = Some []"
  by (simp_all add: createBlankCanvas_def blank_canvas_def Let_def js_Number_def is_digit_def
      decimal_value_def digit_value_def round_double_def js_index_def set_width_def
      set_height_def createElement_canvas_def clearRect_def to_unsigned_long_def reflected_def
      toDataURL_def test_browser_def)

lemma processApiResponse_without_data:
  "processApiResponse
     (response_of [\<lparr>inlineData = Some \<lparr>data = None, mimeType = ''image/png''\<rparr>, text' = None\<rparr>]) =
     Inr \<lparr>image_result = Some ''data:image/png;base64,undefined'', text_result = None\<rparr>"
  by (simp add: response_of_def processApiResponse_def normalized_def Let_def scan_part_def
      png_data_url_def js_interp_def js_truthy_def)

lemma editImage_examples:
  "editImage (content_ai (response_of two_images)) webp_file ''make it blue'' =
     ([Call_generateContent
         \<lparr>model = ''gemini-2.5-flash-image-preview'',
          contents =
            \<lparr>parts =
               Some [\<lparr>inlineData = Some \<lparr>data = Some ''REVG'', mimeType = ''image/webp''\<rparr>,
                      text' = None\<rparr>,
                     \<lparr>inlineData = None, text' = Some ''make it blue''\<rparr>]\<rparr>,
          config = \<lparr>responseModalities = Some [IMAGE, TEXT], responseMimeType = None, responseSchema = None\<rparr>\<rparr>],
      Inr \<lparr>image_result = Some ''data:image/png;base64,BBBB'', text_result = Some ''second''\<rparr>)"
  "snd (editImage (content_ai \<lparr>candidates = Some [\<lparr>content = None\<rparr>], response_text = None\<rparr>)
          webp_file ''make it blue'') =
     Inl (Thrown_Error Error
            (''Cannot read properties of undefined (reading '' @ [CHR 0x27] @ ''parts''
               @ [CHR 0x27] @ '')''))"
  "snd (editImage
          (content_ai \<lparr>candidates = Some [\<lparr>content = Some \<lparr>parts = None\<rparr>\<rparr>], response_text = None\<rparr>)
          webp_file ''make it blue'') =
     Inl (Thrown_Error Error ''response.candidates[0].content.parts is not iterable'')"
  by (simp_all add: editImage_def Let_def content_ai_def response_of_def two_images_def
      fileToGenerativePart_def webp_file_def js_index_def text_part_def modalities_config_def
      processApiResponse_def normalized_def scan_part_def png_data_url_def js_interp_def
      js_truthy_def rethrow_def)

lemma editImageWithMask_example:
  "editImageWithMask (content_ai (response_of two_images)) webp_file jpeg_blob ''make it blue'' =
     ([Call_generateContent
         \<lparr>model = ''gemini-2.5-flash-image-preview'',
          contents =
            \<lparr>parts =
               Some [\<lparr>inlineData = Some \<lparr>data = Some ''REVG'', mimeType = ''image/webp''\<rparr>,
                      text' = None\<rparr>,
                     \<lparr>inlineData = Some \<lparr>data = Some ''QUJD'', mimeType = ''image/png''\<rparr>,
                      text' = None\<rparr>,
                     \<lparr>inlineData = None, text' = Some ''make it blue''\<rparr>]\<rparr>,
          config = \<lparr>responseModalities = Some [IMAGE, TEXT], responseMimeType = None, responseSchema = None\<rparr>\<rparr>],
      Inr \<lparr>image_result = Some ''data:image/png;base64,BBBB'', text_result = Some ''second''\<rparr>)"
  by (simp add: editImageWithMask_def Let_def content_ai_def response_of_def two_images_def
      fileToGenerativePart_def webp_file_def jpeg_blob_def js_index_def text_part_def
      modalities_config_def processApiResponse_def normalized_def scan_part_def
      png_data_url_def js_interp_def js_truthy_def rethrow_def)

lemma getCreativeIdeas_examples:
  "getCreativeIdeas (test_browser test_parse) (content_ai (text_response ''{\"ideas\":[\"a\"]}''))
     webp_file =
     ([Call_generateContent
         \<lparr>model = ''gemini-2.5-flash'',
          contents =
            \<lparr>parts =
               Some [\<lparr>inlineData = None,
                      text' = Some ''You are a creative photo editing assistant. Analyze the following image and provide 3-4 distinct, creative ideas for how to edit it. Each idea should be a short, actionable sentence that can be used as a prompt for an AI image editor. Return the ideas as a JSON array of strings.''\<rparr>,
                     \<lparr>inlineData = Some \<lparr>data = Some ''REVG'', mimeType = ''image/webp''\<rparr>,
                      text' = None\<rparr>]\<rparr>,
          config =
            \<lparr>responseModalities = None, responseMimeType = Some ''application/json'',
             responseSchema = Some (Type_OBJECT [(''ideas'', Type_ARRAY Type_STRING None)])\<rparr>\<rparr>],
      Inr (Some (JArr [JStr ''a''])))"
  "snd (getCreativeIdeas (test_browser test_parse) (content_ai (text_response [])) webp_file) =
     Inr None"
  "snd (getCreativeIdeas (test_browser test_parse) (content_ai (text_response ''{}'')) webp_file) =
     Inl (Thrown_Error Error ''Unexpected token'')"
  "snd (getCreativeIdeas (test_browser test_parse) (content_ai (text_response ''null'')) webp_file) =
     Inl (Thrown_Error Error
            (''Cannot read properties of null (reading '' @ [CHR 0x27] @ ''ideas''
               @ [CHR 0x27] @ '')''))"
  by (simp_all add: getCreativeIdeas_def Let_def content_ai_def text_response_def
      test_browser_def test_parse_def fileToGenerativePart_def webp_file_def js_index_def
      text_part_def creative_ideas_instruction_def ideas_config_def js_truthy_def rethrow_def)

lemma generateImageWithReference_examples:
  "snd (generateImageWithReference (test_browser test_parse) (content_ai (response_of two_images))
          [webp_file] ''a cat'' ''16:9'') = Inr [''data:image/png;base64,BBBB'']"
  "snd (generateImageWithReference (test_browser test_parse)
          (content_ai (response_of [\<lparr>inlineData = None, text' = Some ''I cannot draw that.''\<rparr>]))
          [webp_file] ''a cat'' ''16:9'') = Inl (Thrown_Error Error ''I cannot draw that.'')"
  "snd (generateImageWithReference (test_browser test_parse) (content_ai (response_of []))
          [webp_file] ''a cat'' ''16:9'') =
     Inl (Thrown_Error Error ''No content was generated. The request may have been blocked.'')"
  by (simp_all add: generateImageWithReference_def Let_def content_ai_def response_of_def
      two_images_def js_trim_def js_whitespace_def processApiResponse_def normalized_def
      scan_part_def png_data_url_def js_interp_def js_truthy_def no_content_message_def
      rethrow_def)


end
